theory Spec2Isabelle
  imports Complex_Main "HOL-Library.AList" "HOL-Library.Sublist"
begin

section \<open>JSON values and the Python operations the service applies to them\<close>

text \<open>
  The service (\<^verbatim>\<open>src/aws-claude.py\<close>) works on parsed JSON: Python dicts, lists,
  strings, numbers, booleans and \<^verbatim>\<open>None\<close>. A dict is an association list in insertion
  order; the first binding of a key is its binding.

  Numbers are Python ints. Requests that carry a number with a fractional part are not
  represented, and the float literal \<^verbatim>\<open>1.0\<close> (the default of \<^verbatim>\<open>temperature\<close> and
  \<^verbatim>\<open>top_p\<close>, passed through untouched) is written \<open>JInt 1\<close>. A string is a list of
  characters with code points below 256.
\<close>

datatype json =
    JNull
  | JBool bool
  | JInt int
  | JStr string
  | JList "json list"
  | JObj "(string \<times> json) list"

type_synonym dict = "(string \<times> json) list"

datatype py_error =
    TypeError
  | AttributeError
  | ValueError
  | ClientError string string
  | OtherException string

text \<open>\<^verbatim>\<open>k in d\<close>, \<^verbatim>\<open>d.get(k)\<close>, \<^verbatim>\<open>d.get(k, default)\<close>, \<^verbatim>\<open>d[k] = v\<close>, \<^verbatim>\<open>del d[k]\<close>.\<close>

definition has_key :: "dict \<Rightarrow> string \<Rightarrow> bool" where
  "has_key d k = (map_of d k \<noteq> None)"

definition get_or :: "dict \<Rightarrow> string \<Rightarrow> json \<Rightarrow> json" where
  "get_or d k dflt = (case map_of d k of None \<Rightarrow> dflt | Some v \<Rightarrow> v)"

definition get :: "dict \<Rightarrow> string \<Rightarrow> json" where
  "get d k = get_or d k JNull"

definition set_key :: "dict \<Rightarrow> string \<Rightarrow> json \<Rightarrow> dict" where
  "set_key d k v = AList.update k v d"

definition del_key :: "dict \<Rightarrow> string \<Rightarrow> dict" where
  "del_key d k = AList.delete k d"

text \<open>Python truth value of a JSON value (\<^verbatim>\<open>if x:\<close>).\<close>

fun truthy :: "json \<Rightarrow> bool" where
  "truthy JNull = False"
| "truthy (JBool b) = b"
| "truthy (JInt n) = (n \<noteq> 0)"
| "truthy (JStr s) = (s \<noteq> [])"
| "truthy (JList xs) = (xs \<noteq> [])"
| "truthy (JObj d) = (d \<noteq> [])"

text \<open>
  The value a JSON value has in an ordering comparison with an int (\<^verbatim>\<open>x > 1024\<close>):
  ints and bools compare, everything else raises \<^verbatim>\<open>TypeError\<close> (\<open>None\<close> here).
\<close>

fun as_number :: "json \<Rightarrow> int option" where
  "as_number (JInt n) = Some n"
| "as_number (JBool b) = Some (if b then 1 else 0)"
| "as_number _ = None"

text \<open>
  \<^verbatim>\<open>str.strip()\<close> removes leading and trailing whitespace; the handlers only test
  whether the result is empty, that is, whether some character is not whitespace.
  The whitespace characters of Python below code point 256.
\<close>

definition is_space :: "char \<Rightarrow> bool" where
  "is_space c = (of_char c \<in> {9, 10, 11, 12, 13, 28, 29, 30, 31, 32, 133, 160 :: nat})"

definition strip_nonempty :: "string \<Rightarrow> bool" where
  "strip_nonempty s = (\<exists>c \<in> set s. \<not> is_space c)"

text \<open>\<^verbatim>\<open>sub in s\<close> on strings.\<close>

fun contains :: "string \<Rightarrow> string \<Rightarrow> bool" where
  "contains sub [] = (sub = [])"
| "contains sub (c # cs) = (prefix sub (c # cs) \<or> contains sub cs)"

text \<open>
  \<^verbatim>\<open>int(s)\<close> on a string: optional surrounding whitespace, an optional sign, then decimal
  digits, where single underscores may separate digits. \<open>None\<close> is \<^verbatim>\<open>ValueError\<close>.
\<close>

definition is_digit :: "char \<Rightarrow> bool" where
  "is_digit c = (48 \<le> (of_char c :: nat) \<and> (of_char c :: nat) \<le> 57)"

fun digits_value :: "int \<Rightarrow> bool \<Rightarrow> string \<Rightarrow> int option" where
  "digits_value acc after_digit [] = (if after_digit then Some acc else None)"
| "digits_value acc after_digit (c # cs) =
     (if is_digit c then digits_value (10 * acc + (int (of_char c) - 48)) True cs
      else if c = CHR ''_'' \<and> after_digit \<and> cs \<noteq> [] \<and> is_digit (hd cs)
        then digits_value acc False cs
      else None)"

definition int_of_string :: "string \<Rightarrow> int option" where
  "int_of_string s =
     (let t = rev (dropWhile is_space (rev (dropWhile is_space s)))
      in case t of
           [] \<Rightarrow> None
         | c # cs \<Rightarrow>
             if c = CHR ''-'' then map_option uminus (digits_value 0 False cs)
             else if c = CHR ''+'' then digits_value 0 False cs
             else digits_value 0 False (c # cs))"

text \<open>
  \<^verbatim>\<open>int(x)\<close> inside \<^verbatim>\<open>try: ... except (ValueError, TypeError)\<close>: \<open>None\<close> is either
  exception (\<^verbatim>\<open>None\<close>, lists and dicts raise \<^verbatim>\<open>TypeError\<close>, a malformed string
  \<^verbatim>\<open>ValueError\<close>).
\<close>

fun py_int :: "json \<Rightarrow> int option" where
  "py_int (JInt n) = Some n"
| "py_int (JBool b) = Some (if b then 1 else 0)"
| "py_int (JStr s) = int_of_string s"
| "py_int _ = None"

text \<open>
  \<^verbatim>\<open>int(x / 2)\<close> and \<^verbatim>\<open>int(x * 0.8)\<close> on an int \<open>x\<close>: the float is truncated towards
  zero. For the magnitudes the service handles (\<open>max_tokens\<close> is capped at 128000) the
  float product is within the rounding that leaves the truncation equal to that of the
  exact quotient \<open>4 * x / 5\<close>.
\<close>

definition trunc_div :: "int \<Rightarrow> int \<Rightarrow> int" where
  "trunc_div a b = (if 0 \<le> a then a div b else - ((- a) div b))"

definition int_half :: "int \<Rightarrow> int" where
  "int_half x = trunc_div x 2"

definition int_times_0_8 :: "int \<Rightarrow> int" where
  "int_times_0_8 x = trunc_div (4 * x) 5"

section \<open>Configuration\<close>

definition DEFAULT_MAX_TOKENS :: int where
  "DEFAULT_MAX_TOKENS = 4096"

definition MAX_OUTPUT_TOKENS :: int where
  "MAX_OUTPUT_TOKENS = 128000"

definition MODEL_MAPPING :: "(string \<times> string) list" where
  "MODEL_MAPPING =
     [(''claude-3-7-sonnet'', ''us.anthropic.claude-3-7-sonnet-20250219-v1:0''),
      (''claude-3-7-sonnet-thinking'', ''us.anthropic.claude-3-7-sonnet-20250219-v1:0''),
      (''claude-3-opus'', ''anthropic.claude-3-opus-20240229-v1:0''),
      (''claude-3-5-sonnet'', ''anthropic.claude-3-5-sonnet-20240620-v1:0''),
      (''claude-3-sonnet'', ''anthropic.claude-3-sonnet-20240229-v1:0''),
      (''claude-3-haiku'', ''anthropic.claude-3-haiku-20240307-v1:0''),
      (''claude-2'', ''anthropic.claude-v2:1''),
      (''claude-instant'', ''anthropic.claude-instant-v1'')]"

definition DEFAULT_MODEL_ID :: string where
  "DEFAULT_MODEL_ID = ''us.anthropic.claude-3-7-sonnet-20250219-v1:0''"

definition MAX_RETRIES :: nat where
  "MAX_RETRIES = 5"

definition BASE_DELAY :: real where
  "BASE_DELAY = 1"

definition MAX_DELAY :: real where
  "MAX_DELAY = 30"

section \<open>Request logging\<close>

text \<open>
  \<^verbatim>\<open>log_request_info\<close> writes a log line and, in debug mode, shortens long texts
  in a copy of the request. The copy is shallow (\<^verbatim>\<open>request_data.copy()\<close>), so the
  assignment \<^verbatim>\<open>safe_data['messages'][i]['content'] = msg['content'][:200] + ...\<close>
  reaches the message dicts of the request itself; the assignment to
  \<^verbatim>\<open>safe_data['prompt']\<close> does not. The function below returns the request as the
  handler finds it afterwards. The two CJK characters of the marker
  are outside the character range of the model and are written as their UTF-8 bytes.
\<close>

definition truncation_mark :: string where
  "truncation_mark =
     ''... ['' @ map char_of [230, 136, 170, 230, 150, 173 :: nat] @ '']''"

fun truncate_message :: "json \<Rightarrow> json" where
  "truncate_message (JObj msg) =
     (case map_of msg ''content'' of
        Some (JStr s) \<Rightarrow>
          if length s > 200
          then JObj (set_key msg ''content'' (JStr (take 200 s @ truncation_mark)))
          else JObj msg
      | _ \<Rightarrow> JObj msg)"
| "truncate_message v = v"

definition log_request_info :: "bool \<Rightarrow> dict \<Rightarrow> dict" where
  "log_request_info debug_mode request_data =
     (if debug_mode then
        (case map_of request_data ''messages'' of
           Some (JList msgs) \<Rightarrow>
             set_key request_data ''messages'' (JList (map truncate_message msgs))
         | _ \<Rightarrow> request_data)
      else request_data)"

section \<open>validate\_bedrock\_request\<close>

text \<open>
  The validator of the body sent to the backend, block by block as in the source. The
  thinking object is mutated in place there; here the updated object is stored back
  under the same key.
\<close>

definition thinking_model_name :: string where
  "thinking_model_name = ''claude-3-7-sonnet-thinking''"

definition default_thinking :: dict where
  "default_thinking = [(''type'', JStr ''enabled''), (''budget_tokens'', JInt 4000)]"

definition model_is_thinking :: "dict \<Rightarrow> bool" where
  "model_is_thinking vp =
     (if has_key vp ''_model_name'' \<and> get vp ''_model_name'' = JStr thinking_model_name
        then True
      else if has_key vp ''messages'' \<and> (case get vp ''messages'' of JList _ \<Rightarrow> True | _ \<Rightarrow> False)
        then has_key vp ''model'' \<and> get vp ''model'' = JStr thinking_model_name
      else False)"

text \<open>Lines 207-236: the \<^verbatim>\<open>thinking\<close> parameter, when present.\<close>

definition check_thinking :: "dict \<Rightarrow> dict" where
  "check_thinking vp =
     (if has_key vp ''thinking'' then
        (let thinking0 = (case get vp ''thinking'' of JObj t \<Rightarrow> t | _ \<Rightarrow> default_thinking);
             thinking1 =
               (if \<not> has_key thinking0 ''type'' \<or> get thinking0 ''type'' \<noteq> JStr ''enabled''
                then set_key thinking0 ''type'' (JStr ''enabled'') else thinking0);
             thinking2 =
               (if \<not> has_key thinking1 ''budget_tokens''
                then set_key thinking1 ''budget_tokens'' (JInt 4000)
                else (case py_int (get thinking1 ''budget_tokens'') of
                        Some budget \<Rightarrow>
                          set_key thinking1 ''budget_tokens''
                            (JInt (if budget < 1024 then 1024 else budget))
                      | None \<Rightarrow> set_key thinking1 ''budget_tokens'' (JInt 4000)))
         in set_key vp ''thinking'' (JObj thinking2))
      else vp)"

text \<open>Lines 238-247: \<^verbatim>\<open>max_tokens\<close> at least 1024 in thinking mode.\<close>

definition check_max_tokens :: "bool \<Rightarrow> dict \<Rightarrow> dict" where
  "check_max_tokens thinking_on vp =
     (if thinking_on \<and> has_key vp ''max_tokens'' then
        (case py_int (get vp ''max_tokens'') of
           Some max_tokens \<Rightarrow>
             if max_tokens < 1024 then set_key vp ''max_tokens'' (JInt 1024) else vp
         | None \<Rightarrow> set_key vp ''max_tokens'' (JInt 4096))
      else vp)"

text \<open>Lines 249-273: a thinking model without a \<^verbatim>\<open>thinking\<close> parameter gets one.\<close>

definition auto_add_thinking :: "bool \<Rightarrow> dict \<Rightarrow> dict" where
  "auto_add_thinking is_thinking_model vp =
     (if is_thinking_model \<and> \<not> has_key vp ''thinking'' \<and> get vp ''thinking'' \<noteq> JBool False then
        (let m0 = (case py_int (get_or vp ''max_tokens'' (JInt DEFAULT_MAX_TOKENS)) of
                     Some m \<Rightarrow> m | None \<Rightarrow> DEFAULT_MAX_TOKENS);
             max_tokens = (if m0 < 1024 then 1024 else m0);
             vp1 = (if m0 < 1024 then set_key vp ''max_tokens'' (JInt 1024) else vp);
             thinking_budget = max 1024 (min (int_times_0_8 max_tokens) (max_tokens - 1))
         in set_key vp1 ''thinking''
              (JObj [(''type'', JStr ''enabled''), (''budget_tokens'', JInt thinking_budget)]))
      else vp)"

text \<open>Lines 275-300: \<^verbatim>\<open>max_tokens\<close> above the budget, and no \<^verbatim>\<open>top_p\<close>.\<close>

definition check_budget :: "dict \<Rightarrow> dict" where
  "check_budget vp =
     (case get vp ''thinking'' of
        JObj t \<Rightarrow>
          if t = [] then vp
          else
            (let coerced = py_int (get_or t ''budget_tokens'' (JInt 0));
                 thinking_budget = (case coerced of Some b \<Rightarrow> b | None \<Rightarrow> 4000);
                 vp1 = (case coerced of
                          Some b \<Rightarrow> vp
                        | None \<Rightarrow>
                            set_key vp ''thinking''
                              (JObj (set_key t ''budget_tokens'' (JInt 4000))));
                 max_tokens =
                   (case py_int (get_or vp1 ''max_tokens'' (JInt DEFAULT_MAX_TOKENS)) of
                      Some m \<Rightarrow> m | None \<Rightarrow> DEFAULT_MAX_TOKENS);
                 vp2 = (if max_tokens \<le> thinking_budget
                        then set_key vp1 ''max_tokens'' (JInt (thinking_budget + 1)) else vp1)
             in if has_key vp2 ''top_p'' then del_key vp2 ''top_p'' else vp2)
      | _ \<Rightarrow> vp)"

definition validate_bedrock_request :: "dict \<Rightarrow> dict" where
  "validate_bedrock_request params =
     (let is_thinking_model = model_is_thinking params;
          is_thinking_enabled = has_key params ''thinking'';
          vp1 = check_thinking params;
          vp2 = check_max_tokens (is_thinking_enabled \<or> is_thinking_model) vp1;
          vp3 = auto_add_thinking is_thinking_model vp2
      in check_budget vp3)"

text \<open>
  The debug block of \<^verbatim>\<open>invoke_with_retry\<close> (lines 312-350): only in debug mode is
  the body parsed, tagged with the alias found for the model id, validated, untagged
  and written back. The body is held as the dict that \<^verbatim>\<open>json.dumps\<close> serialises
  (the serialised text is never empty, so the test on it always passes).
\<close>

definition reverse_lookup :: "string \<Rightarrow> string" where
  "reverse_lookup model_id =
     (case filter (\<lambda>(k, v). v = model_id) MODEL_MAPPING of
        [] \<Rightarrow> []
      | (k, v) # _ \<Rightarrow> k)"

definition prepare_body :: "bool \<Rightarrow> string \<Rightarrow> dict \<Rightarrow> dict" where
  "prepare_body debug_mode model_id body =
     (if debug_mode then
        (let model_name = reverse_lookup model_id;
             body_dict = (if model_name \<noteq> [] then set_key body ''_model_name'' (JStr model_name)
                          else body);
             validated = validate_bedrock_request body_dict
         in if has_key validated ''_model_name'' then del_key validated ''_model_name''
            else validated)
      else body)"

section \<open>Building the backend request\<close>

text \<open>
  What a handler answers without the backend, or what it sends there. A 500 answer
  carries the exception in place of its message text.
\<close>

datatype early = Http400 string | Http500 py_error

record dispatch =
  model_id :: string
  bed_params :: dict
  stream :: bool
  use_thinking :: bool
  model_name :: string

text \<open>
  \<^verbatim>\<open>MODEL_MAPPING.get(model_name, DEFAULT_MODEL_ID)\<close>: a list or a dict as key is
  unhashable and raises \<^verbatim>\<open>TypeError\<close>; any other value is looked up.
\<close>

fun resolve_model :: "json \<Rightarrow> py_error + string" where
  "resolve_model (JStr name) =
     Inr (case map_of MODEL_MAPPING name of Some i \<Rightarrow> i | None \<Rightarrow> DEFAULT_MODEL_ID)"
| "resolve_model (JList _) = Inl TypeError"
| "resolve_model (JObj _) = Inl TypeError"
| "resolve_model _ = Inr DEFAULT_MODEL_ID"

text \<open>Lines 427-437 and 698-708: whether the request runs in thinking mode.\<close>

definition use_thinking_mode :: "dict \<Rightarrow> json \<Rightarrow> bool" where
  "use_thinking_mode req name =
     (let by_model = (name = JStr thinking_model_name);
          by_model' = (if by_model \<and> get req ''thinking'' = JBool False then False else by_model)
      in if truthy (get_or req ''thinking'' (JBool False)) then True else by_model')"

text \<open>
  Lines 473-491 and 758-776: the thinking budget. The first truthy convenience field
  is taken as it is; \<^verbatim>\<open>max(1024, thinking_budget)\<close> and the comparison with
  \<^verbatim>\<open>max_tokens\<close> raise \<^verbatim>\<open>TypeError\<close> on a value that does not compare with an int.
\<close>

definition requested_budget :: "dict \<Rightarrow> int \<Rightarrow> json" where
  "requested_budget req max_tokens =
     (if truthy (get req ''max_thinking_tokens'') then get req ''max_thinking_tokens''
      else if truthy (get req ''thinking_max_tokens'') then get req ''thinking_max_tokens''
      else if truthy (get req ''max_thinking_length'') then get req ''max_thinking_length''
      else JInt (max 4000 (int_half max_tokens)))"

definition thinking_budget :: "dict \<Rightarrow> int \<Rightarrow> py_error + int" where
  "thinking_budget req max_tokens =
     (case as_number (requested_budget req max_tokens) of
        None \<Rightarrow> Inl TypeError
      | Some b \<Rightarrow>
          (let budget = max 1024 b
           in Inr (if budget \<ge> max_tokens then int_times_0_8 max_tokens else budget)))"

text \<open>
  Lines 468-509 and 753-794: the additions for an alias that contains
  \<^verbatim>\<open>claude-3-7\<close>. The test \<^verbatim>\<open>'claude-3-7' in model_name\<close> raises \<^verbatim>\<open>TypeError\<close>
  when the alias is not a string.
\<close>

definition beta_features :: "dict \<Rightarrow> int \<Rightarrow> dict \<Rightarrow> dict" where
  "beta_features req max_tokens bp =
     (let bp1 = (if truthy (get_or req ''enable_extended_output'' (JBool False)) \<and> max_tokens > 64000
                 then set_key bp ''anthropic_beta'' (JList [JStr ''output-128k-2025-02-19''])
                 else bp)
      in if truthy (get_or req ''enable_computer_use'' (JBool False)) then
           (let bp2 = (if \<not> has_key bp1 ''anthropic_beta''
                       then set_key bp1 ''anthropic_beta'' (JList []) else bp1)
            in case get bp2 ''anthropic_beta'' of
                 JList fs \<Rightarrow> set_key bp2 ''anthropic_beta'' (JList (fs @ [JStr ''computer_20250212'']))
               | _ \<Rightarrow> bp2)
         else bp1)"

definition claude_3_7_params :: "dict \<Rightarrow> json \<Rightarrow> bool \<Rightarrow> int \<Rightarrow> dict \<Rightarrow> py_error + dict" where
  "claude_3_7_params req name thinking_mode max_tokens bp =
     (case name of
        JStr s \<Rightarrow>
          if contains ''claude-3-7'' s then
            (if thinking_mode then
               (case thinking_budget req max_tokens of
                  Inl e \<Rightarrow> Inl e
                | Inr budget \<Rightarrow>
                    Inr (beta_features req max_tokens
                          (set_key bp ''thinking''
                             (JObj [(''type'', JStr ''enabled''),
                                    (''budget_tokens'', JInt budget)]))))
             else Inr (beta_features req max_tokens bp))
          else Inr bp
      | _ \<Rightarrow> Inl TypeError)"

text \<open>The alias as the response and the stream frames repeat it.\<close>

fun name_text :: "json \<Rightarrow> string" where
  "name_text (JStr s) = s"
| "name_text _ = []"

text \<open>
  The request as both handlers assemble it once \<^verbatim>\<open>max_tokens\<close> has compared with
  \<^verbatim>\<open>MAX_OUTPUT_TOKENS\<close> (lines 442-512 and 716-797; the source repeats the code in
  each handler): the cap, the basic parameters with the handler's messages,
  \<^verbatim>\<open>top_p\<close> outside thinking mode, the additions for \<^verbatim>\<open>claude-3-7\<close>, and the stop
  sequences in the form the handler gives them.
\<close>

definition build_request ::
  "dict \<Rightarrow> json \<Rightarrow> string \<Rightarrow> bool \<Rightarrow> int \<Rightarrow> json \<Rightarrow> json \<Rightarrow> early + dispatch" where
  "build_request req name mid thinking_mode n0 messages stop_sequences =
     (let max_tokens = (if n0 > MAX_OUTPUT_TOKENS then JInt MAX_OUTPUT_TOKENS
                        else get_or req ''max_tokens'' (JInt DEFAULT_MAX_TOKENS));
          n = (if n0 > MAX_OUTPUT_TOKENS then MAX_OUTPUT_TOKENS else n0);
          bp0 = [(''anthropic_version'', JStr ''bedrock-2023-05-31''),
                 (''max_tokens'', max_tokens),
                 (''temperature'', get_or req ''temperature'' (JInt 1)),
                 (''messages'', messages)];
          bp1 = (if \<not> thinking_mode
                 then set_key bp0 ''top_p'' (get_or req ''top_p'' (JInt 1))
                 else bp0)
      in case claude_3_7_params req name thinking_mode n bp1 of
           Inl e \<Rightarrow> Inl (Http500 e)
         | Inr bp2 \<Rightarrow>
             Inr \<lparr> model_id = mid,
                   bed_params = (if truthy (get req ''stop'')
                                 then set_key bp2 ''stop_sequences'' stop_sequences else bp2),
                   stream = truthy (get_or req ''stream'' (JBool False)),
                   use_thinking = thinking_mode,
                   model_name = name_text name \<rparr>)"

text \<open>
  The \<^verbatim>\<open>completions\<close> handler up to the backend call (lines 407-515).
  \<^verbatim>\<open>prompt.strip()\<close> raises \<^verbatim>\<open>AttributeError\<close> on a truthy prompt that is no string,
  \<^verbatim>\<open>max_tokens > MAX_OUTPUT_TOKENS\<close> raises \<^verbatim>\<open>TypeError\<close> on a value that does not
  compare with an int; the handler answers every exception with a 500.
\<close>

definition completions_params :: "bool \<Rightarrow> dict \<Rightarrow> early + dispatch" where
  "completions_params debug_mode request =
     (let req = log_request_info debug_mode request;
          prompt = get req ''prompt''
      in if \<not> truthy prompt then Inl (Http400 ''Prompt cannot be empty'')
         else case prompt of
           JStr p \<Rightarrow>
             if \<not> strip_nonempty p then Inl (Http400 ''Prompt cannot be empty'')
             else
               (let name = get_or req ''model'' (JStr ''claude-3-7-sonnet'')
                in case resolve_model name of
                     Inl e \<Rightarrow> Inl (Http500 e)
                   | Inr mid \<Rightarrow>
                      (case as_number (get_or req ''max_tokens'' (JInt DEFAULT_MAX_TOKENS)) of
                         None \<Rightarrow> Inl (Http500 TypeError)
                       | Some n0 \<Rightarrow>
                           build_request req name mid (use_thinking_mode req name) n0
                             (JList [JObj [(''role'', JStr ''user''), (''content'', prompt)]])
                             (get req ''stop'')))
         | _ \<Rightarrow> Inl (Http500 AttributeError))"

text \<open>
  The message filter of \<^verbatim>\<open>chat_completions\<close> (lines 721-735). \<^verbatim>\<open>any(...)\<close> stops
  at the first text item with a truthy text; \<^verbatim>\<open>item.get\<close> and \<^verbatim>\<open>msg.get\<close> raise
  \<^verbatim>\<open>AttributeError\<close> on a value that is no dict, \<^verbatim>\<open>content.strip()\<close> on a truthy
  content that is neither a string nor a list.
\<close>

fun any_text :: "json list \<Rightarrow> py_error + bool" where
  "any_text [] = Inr False"
| "any_text (JObj item # items) =
     (if get item ''type'' = JStr ''text'' \<and> truthy (get_or item ''text'' (JStr []))
      then Inr True else any_text items)"
| "any_text (_ # items) = Inl AttributeError"

fun has_content :: "json \<Rightarrow> py_error + bool" where
  "has_content (JList items) = any_text items"
| "has_content (JStr s) = Inr (strip_nonempty s)"
| "has_content c = (if truthy c then Inl AttributeError else Inr False)"

fun filter_messages :: "nat \<Rightarrow> nat \<Rightarrow> json list \<Rightarrow> py_error + json list" where
  "filter_messages n i [] = Inr []"
| "filter_messages n i (JObj msg # rest) =
     (case has_content (get_or msg ''content'' (JStr [])) of
        Inl e \<Rightarrow> Inl e
      | Inr hc \<Rightarrow>
          (case filter_messages n (Suc i) rest of
             Inl e \<Rightarrow> Inl e
           | Inr kept \<Rightarrow>
               Inr (if hc \<or> (Suc i = n \<and> get msg ''role'' = JStr ''assistant'')
                    then JObj msg # kept else kept)))"
| "filter_messages n i (_ # rest) = Inl AttributeError"

text \<open>
  \<^verbatim>\<open>enumerate(messages)\<close>: a list gives its elements; \<^verbatim>\<open>None\<close>, a number or a bool is
  not iterable (\<^verbatim>\<open>TypeError\<close>); a string or a dict gives strings, on the first of which
  \<^verbatim>\<open>msg.get\<close> raises, so only the empty ones pass (with nothing to filter).
\<close>

fun message_list :: "json \<Rightarrow> py_error + json list" where
  "message_list (JList msgs) = Inr msgs"
| "message_list (JStr s) = (if s = [] then Inr [] else Inl AttributeError)"
| "message_list (JObj d) = (if d = [] then Inr [] else Inl AttributeError)"
| "message_list _ = Inl TypeError"

definition is_user :: "json \<Rightarrow> bool" where
  "is_user msg = (case msg of JObj m \<Rightarrow> get m ''role'' = JStr ''user'' | _ \<Rightarrow> False)"

text \<open>The \<^verbatim>\<open>chat_completions\<close> handler up to the backend call (lines 687-800).\<close>

definition chat_completions_params :: "bool \<Rightarrow> dict \<Rightarrow> early + dispatch" where
  "chat_completions_params debug_mode request =
     (let req = log_request_info debug_mode request;
          messages = get_or req ''messages'' (JList []);
          name = get_or req ''model'' (JStr ''claude-3-7-sonnet'')
      in case resolve_model name of
           Inl e \<Rightarrow> Inl (Http500 e)
         | Inr mid \<Rightarrow>
            (case as_number (get_or req ''max_tokens'' (JInt DEFAULT_MAX_TOKENS)) of
               None \<Rightarrow> Inl (Http500 TypeError)
             | Some n0 \<Rightarrow>
                (case message_list messages of
                   Inl e \<Rightarrow> Inl (Http500 e)
                 | Inr msgs \<Rightarrow>
                    (case filter_messages (length msgs) 0 msgs of
                       Inl e \<Rightarrow> Inl (Http500 e)
                     | Inr filtered_messages \<Rightarrow>
                        if filtered_messages = [] \<or> \<not> (\<exists>m \<in> set filtered_messages. is_user m)
                        then Inl (Http400 ''At least one user message with content is required'')
                        else build_request req name mid (use_thinking_mode req name) n0
                               (JList filtered_messages)
                               (case get req ''stop'' of JList xs \<Rightarrow> JList xs
                                                      | stop \<Rightarrow> JList [stop])))))"

text \<open>
  The body as the backend receives it: \<^verbatim>\<open>invoke_with_retry\<close> passes it through its
  debug block before the first attempt.
\<close>

definition dispatched_body :: "bool \<Rightarrow> dispatch \<Rightarrow> dict" where
  "dispatched_body debug_mode d = prepare_body debug_mode (model_id d) (bed_params d)"

section \<open>invoke\_with\_retry\<close>

text \<open>
  One attempt of the backend call either returns a response or raises; a
  \<^verbatim>\<open>ClientError\<close> carries the error code and message of the backend. The backend is a
  function of the attempt index, so that it may answer each attempt differently;
  \<open>jitter k\<close> is the value \<^verbatim>\<open>random.uniform(0, 1)\<close> draws before retry \<open>k\<close>.
  The loop records how many attempts were made and the delays slept.
\<close>

datatype 'a outcome = Success 'a | ClientErr string string | OtherErr string

datatype 'a returned = Returned 'a | ReturnedNone | Raised py_error

record 'a invocation =
  attempts :: nat
  sleeps :: "real list"
  result :: "'a returned"

fun is_throttling :: "'a outcome \<Rightarrow> bool" where
  "is_throttling (ClientErr code msg) = (code = ''ThrottlingException'')"
| "is_throttling _ = False"

text \<open>
  Line 389: \<^verbatim>\<open>min(MAX_DELAY, BASE_DELAY * (2 ** retries) + random.uniform(0, 1))\<close>. The
  product is an int, a power of two \<open>p\<close>; the jitter \<open>u\<close> is a float with
  \<open>0 \<le> u < 1\<close>, and the sum is a sum of Python floats (IEEE 754 binary64, rounded to
  nearest, ties to even). The exact sum lies in \<open>[p, 2 * p)\<close>, where the floats are the
  multiples of \<open>p / 2 ^ 52\<close>: \<open>float_add p u\<close> is the multiple nearest to \<open>p + u\<close>,
  the even one of two that are equally near. Numbers are reals; a float is a real that
  is representable.
\<close>

definition round_half_even :: "real \<Rightarrow> int" where
  "round_half_even x =
     (let f = \<lfloor>x\<rfloor>; d = x - of_int f
      in if d < 1 / 2 then f else if 1 / 2 < d then f + 1 else if even f then f else f + 1)"

definition float_add :: "real \<Rightarrow> real \<Rightarrow> real" where
  "float_add p u = of_int (round_half_even ((p + u) * 2 ^ 52 / p)) * p / 2 ^ 52"

definition delay :: "(nat \<Rightarrow> real) \<Rightarrow> nat \<Rightarrow> real" where
  "delay jitter retries =
     min MAX_DELAY (float_add (BASE_DELAY * 2 ^ retries) (jitter retries))"

function retry_loop ::
  "(nat \<Rightarrow> 'a outcome) \<Rightarrow> (nat \<Rightarrow> real) \<Rightarrow> nat \<Rightarrow> real list \<Rightarrow> 'a invocation" where
  "retry_loop func jitter retries slept =
     (if retries \<le> MAX_RETRIES then
        (case func retries of
           Success response \<Rightarrow>
             \<lparr> attempts = Suc retries, sleeps = slept, result = Returned response \<rparr>
         | ClientErr error_code error_msg \<Rightarrow>
             if error_code = ''ThrottlingException'' \<and> retries < MAX_RETRIES
             then retry_loop func jitter (Suc retries) (slept @ [delay jitter retries])
             else \<lparr> attempts = Suc retries, sleeps = slept,
                    result = Raised (ClientError error_code error_msg) \<rparr>
         | OtherErr msg \<Rightarrow>
             \<lparr> attempts = Suc retries, sleeps = slept, result = Raised (OtherException msg) \<rparr>)
      else \<lparr> attempts = retries, sleeps = slept, result = ReturnedNone \<rparr>)"
  by pat_completeness auto
termination
  by (relation "measure (\<lambda>(func, jitter, retries, slept). Suc MAX_RETRIES - retries)") auto

definition invoke_with_retry ::
  "bool \<Rightarrow> (string \<Rightarrow> dict \<Rightarrow> nat \<Rightarrow> 'a outcome) \<Rightarrow> (nat \<Rightarrow> real) \<Rightarrow> string \<Rightarrow> dict
     \<Rightarrow> 'a invocation" where
  "invoke_with_retry debug_mode func jitter modelId body =
     retry_loop (func modelId (prepare_body debug_mode modelId body)) jitter 0 []"

text \<open>What the exception or the response of the last attempt becomes.\<close>

fun final_result :: "'a outcome \<Rightarrow> 'a returned" where
  "final_result (Success response) = Returned response"
| "final_result (ClientErr error_code error_msg) = Raised (ClientError error_code error_msg)"
| "final_result (OtherErr msg) = Raised (OtherException msg)"

text \<open>Two backends for examples: one throttles the first two attempts, one every attempt.\<close>

definition throttle_twice :: "string \<Rightarrow> dict \<Rightarrow> nat \<Rightarrow> json outcome" where
  "throttle_twice modelId body k =
     (if k < 2 then ClientErr ''ThrottlingException'' ''Too many requests''
      else Success (JObj body))"

definition always_throttle :: "string \<Rightarrow> dict \<Rightarrow> nat \<Rightarrow> json outcome" where
  "always_throttle modelId body k = ClientErr ''ThrottlingException'' ''Too many requests''"

section \<open>Streaming translation\<close>

text \<open>
  A server-sent event is \<^verbatim>\<open>data: <json>\<close> or the sentinel \<^verbatim>\<open>data: [DONE]\<close>. A
  generator yields events until the backend frames end, a \<^verbatim>\<open>break\<close> is reached or an
  exception ends it; the exception, if any, is kept beside the events yielded before it.
  The frames are the parsed chunks of \<^verbatim>\<open>response['body']\<close>. The fields \<^verbatim>\<open>id\<close> and
  \<^verbatim>\<open>created\<close> of a chat chunk are read from the clock and are left out.
\<close>

datatype sse = Data json | Done

text \<open>\<^verbatim>\<open>generate_stream\<close> of \<^verbatim>\<open>completions\<close> (lines 527-547).\<close>

definition text_event :: "json \<Rightarrow> json \<Rightarrow> sse" where
  "text_event completion stop_reason =
     Data (JObj [(''choices'',
       JList [JObj [(''text'', completion), (''index'', JInt 0),
                    (''finish_reason'', if truthy stop_reason then stop_reason else JNull)]])])"

fun completions_stream :: "json list \<Rightarrow> sse list \<times> py_error option" where
  "completions_stream [] = ([], None)"
| "completions_stream (JObj chunk # rest) =
     (case get_or chunk ''delta'' (JObj []) of
        JObj delta \<Rightarrow>
          (let completion = get_or delta ''text'' (JStr []);
               stop_reason = get chunk ''stop_reason'';
               out = (if truthy completion then [text_event completion stop_reason] else [])
           in if truthy stop_reason then (out, None)
              else (case completions_stream rest of (later, err) \<Rightarrow> (out @ later, err)))
      | _ \<Rightarrow> ([], Some AttributeError))"
| "completions_stream (_ # rest) = ([], Some AttributeError)"

text \<open>\<^verbatim>\<open>generate_stream\<close> of \<^verbatim>\<open>chat_completions\<close> (lines 812-910), one frame at a time.\<close>

definition chat_chunk :: "string \<Rightarrow> json \<Rightarrow> json \<Rightarrow> sse" where
  "chat_chunk name delta finish_reason =
     Data (JObj [(''object'', JStr ''chat.completion.chunk''),
                 (''model'', JStr name),
                 (''choices'',
                    JList [JObj [(''index'', JInt 0), (''delta'', delta),
                                 (''finish_reason'', finish_reason)]])])"

definition content_block_delta :: "string \<Rightarrow> dict \<Rightarrow> py_error + sse list" where
  "content_block_delta name chunk =
     (case get_or chunk ''delta'' (JObj []) of
        JObj delta \<Rightarrow>
          if get delta ''type'' = JStr ''thinking_delta'' then
            (let thinking_text = get_or delta ''thinking'' (JStr [])
             in Inr (if truthy thinking_text
                     then [chat_chunk name (JObj [(''thinking'', thinking_text)]) JNull] else []))
          else if get delta ''type'' = JStr ''text_delta'' then
            (let text = get_or delta ''text'' (JStr [])
             in Inr (if truthy text
                     then [chat_chunk name (JObj [(''content'', text)]) JNull] else []))
          else Inr []
      | _ \<Rightarrow> Inl AttributeError)"

definition message_delta :: "string \<Rightarrow> dict \<Rightarrow> py_error + sse list" where
  "message_delta name chunk =
     (case get_or chunk ''delta'' (JObj []) of
        JObj delta \<Rightarrow>
          (let stop_reason = get delta ''stop_reason''
           in Inr (if truthy stop_reason
                   then [chat_chunk name (JObj [])
                           (if stop_reason = JStr ''end_turn'' then JStr ''stop'' else stop_reason),
                         Done]
                   else []))
      | _ \<Rightarrow> Inl AttributeError)"

definition legacy_frame :: "string \<Rightarrow> dict \<Rightarrow> py_error + sse list" where
  "legacy_frame name chunk =
     (case get_or chunk ''delta'' (JObj []) of
        JObj delta \<Rightarrow>
          (let text = get_or delta ''text'' (JStr []);
               stop_reason = get chunk ''stop_reason''
           in Inr ((if truthy text
                    then [chat_chunk name (JObj [(''content'', text)])
                            (if truthy stop_reason then stop_reason else JNull)]
                    else [])
                   @ (if truthy stop_reason then [Done] else [])))
      | _ \<Rightarrow> Inl AttributeError)"

fun chat_frame :: "string \<Rightarrow> json \<Rightarrow> py_error + sse list" where
  "chat_frame name (JObj chunk) =
     (let event_type = get_or chunk ''type'' (JStr [])
      in if event_type = JStr ''content_block_delta'' then content_block_delta name chunk
         else if event_type = JStr ''message_delta'' then message_delta name chunk
         else if \<not> truthy event_type then legacy_frame name chunk
         else Inr [])"
| "chat_frame name _ = Inl AttributeError"

fun chat_stream :: "string \<Rightarrow> json list \<Rightarrow> sse list \<times> py_error option" where
  "chat_stream name [] = ([], None)"
| "chat_stream name (chunk # rest) =
     (case chat_frame name chunk of
        Inl e \<Rightarrow> ([], Some e)
      | Inr out \<Rightarrow> (case chat_stream name rest of (later, err) \<Rightarrow> (out @ later, err)))"

text \<open>
  Frames by what they carry: a text delta with a given non-empty text, the end of a
  message with a given stop reason, and any frame after which the chat generator
  yields the sentinel (a \<^verbatim>\<open>message_delta\<close> with a truthy stop reason, or a frame
  without type with a truthy top-level stop reason).
\<close>

definition text_delta_frame :: "json \<Rightarrow> string \<Rightarrow> bool" where
  "text_delta_frame frame text =
     (case frame of
        JObj chunk \<Rightarrow>
          get_or chunk ''type'' (JStr []) = JStr ''content_block_delta''
          \<and> (case get_or chunk ''delta'' (JObj []) of
                JObj delta \<Rightarrow>
                  get delta ''type'' = JStr ''text_delta''
                  \<and> get_or delta ''text'' (JStr []) = JStr text \<and> text \<noteq> []
              | _ \<Rightarrow> False)
      | _ \<Rightarrow> False)"

definition message_delta_frame :: "json \<Rightarrow> json \<Rightarrow> bool" where
  "message_delta_frame frame stop_reason =
     (case frame of
        JObj chunk \<Rightarrow>
          get_or chunk ''type'' (JStr []) = JStr ''message_delta''
          \<and> (case get_or chunk ''delta'' (JObj []) of
                JObj delta \<Rightarrow> get delta ''stop_reason'' = stop_reason
              | _ \<Rightarrow> False)
      | _ \<Rightarrow> False)"

definition stop_bearing :: "json \<Rightarrow> bool" where
  "stop_bearing frame =
     (case frame of
        JObj chunk \<Rightarrow>
          (let event_type = get_or chunk ''type'' (JStr [])
           in if event_type = JStr ''content_block_delta'' then False
              else if event_type = JStr ''message_delta'' then
                (case get_or chunk ''delta'' (JObj []) of
                   JObj delta \<Rightarrow> truthy (get delta ''stop_reason'')
                 | _ \<Rightarrow> False)
              else if \<not> truthy event_type then truthy (get chunk ''stop_reason'')
              else False)
      | _ \<Rightarrow> False)"

definition count_done :: "sse list \<Rightarrow> nat" where
  "count_done events = length (filter (\<lambda>e. e = Done) events)"

text \<open>Example frames: two text deltas and the end of the message.\<close>

definition hello_frames :: "json list" where
  "hello_frames =
     [JObj [(''type'', JStr ''content_block_delta''), (''index'', JInt 0),
            (''delta'', JObj [(''type'', JStr ''text_delta''), (''text'', JStr ''Hel'')])],
      JObj [(''type'', JStr ''content_block_delta''), (''index'', JInt 0),
            (''delta'', JObj [(''type'', JStr ''text_delta''), (''text'', JStr ''lo'')])]]"

definition end_turn_frame :: json where
  "end_turn_frame =
     JObj [(''type'', JStr ''message_delta''),
           (''delta'', JObj [(''stop_reason'', JStr ''end_turn''), (''stop_sequence'', JNull)])]"

section \<open>Non-streaming translation and the two handlers\<close>

text \<open>
  The tokenizer (\<^verbatim>\<open>tiktoken\<close>) and Python's \<^verbatim>\<open>str\<close> on a value that is no string are
  outside the repository and are parameters: \<open>tokens\<close> gives the number of tokens of a
  text, \<open>py_str\<close> the text of a JSON value. \<^verbatim>\<open>count_tokens\<close> raises \<^verbatim>\<open>TypeError\<close>
  when it is handed something that is no string.
\<close>

fun count_tokens :: "(string \<Rightarrow> nat) \<Rightarrow> json \<Rightarrow> py_error + nat" where
  "count_tokens tokens (JStr s) = Inr (tokens s)"
| "count_tokens tokens _ = Inl TypeError"

text \<open>Lines 560-577 and 924-941: the text of the answer.\<close>

fun concat_text :: "json list \<Rightarrow> string \<Rightarrow> py_error + string" where
  "concat_text [] content = Inr content"
| "concat_text (JObj item # items) content =
     (if get item ''type'' = JStr ''text'' then
        (case get_or item ''text'' (JStr []) of
           JStr t \<Rightarrow> concat_text items (content @ t)
         | _ \<Rightarrow> Inl TypeError)
      else concat_text items content)"
| "concat_text (_ # items) content = Inl AttributeError"

definition extract_content :: "(json \<Rightarrow> string) \<Rightarrow> dict \<Rightarrow> py_error + json" where
  "extract_content py_str bed_response =
     (case map_of bed_response ''content'' of
        Some (JList items) \<Rightarrow> map_sum id JStr (concat_text items [])
      | _ \<Rightarrow>
         (let content = get_or bed_response ''completion'' (JStr [])
          in if truthy content then Inr content
             else
               (let content_obj = get bed_response ''content''
                in case content_obj of
                     JList (JObj first # _) \<Rightarrow> Inr (get_or first ''text'' (JStr []))
                   | JList (_ # _) \<Rightarrow> Inl AttributeError
                   | JStr s \<Rightarrow> Inr (JStr s)
                   | _ \<Rightarrow> Inr (if truthy content_obj then JStr (py_str content_obj)
                               else JStr []))))"

text \<open>Lines 579-600 and 943-964: the thinking text of the answer.\<close>

fun thinking_blocks :: "json list \<Rightarrow> py_error + json list" where
  "thinking_blocks [] = Inr []"
| "thinking_blocks (JObj item # items) =
     (case thinking_blocks items of
        Inl e \<Rightarrow> Inl e
      | Inr blocks \<Rightarrow>
          Inr (if get item ''type'' = JStr ''thinking''
               then get_or item ''thinking'' (JStr []) # blocks else blocks))"
| "thinking_blocks (_ # items) = Inl AttributeError"

fun join_texts :: "json list \<Rightarrow> py_error + string" where
  "join_texts [] = Inr []"
| "join_texts [JStr s] = Inr s"
| "join_texts (JStr s # rest) =
     (case join_texts rest of Inl e \<Rightarrow> Inl e | Inr t \<Rightarrow> Inr (s @ '' '' @ t))"
| "join_texts (_ # rest) = Inl TypeError"

definition extract_thinking :: "dict \<Rightarrow> py_error + json" where
  "extract_thinking bed_response =
     (case (if has_key bed_response ''thinking'' then
              (case get bed_response ''thinking'' of
                 JObj t \<Rightarrow> Inr (get_or t ''text'' (JStr []))
               | _ \<Rightarrow> Inl AttributeError)
            else Inr (JStr [])) of
        Inl e \<Rightarrow> Inl e
      | Inr top_level \<Rightarrow>
          if \<not> truthy top_level \<and> has_key bed_response ''content'' then
            (case message_list (get bed_response ''content'') of
               Inl e \<Rightarrow> Inl e
             | Inr items \<Rightarrow>
                 (case thinking_blocks items of
                    Inl e \<Rightarrow> Inl e
                  | Inr blocks \<Rightarrow>
                      if blocks \<noteq> [] then map_sum id JStr (join_texts blocks) else Inr top_level))
          else Inr top_level)"

text \<open>
  \<^verbatim>\<open>log_response_info\<close> shortens, in debug mode, the long texts of a shallow copy of
  the response, and so of the response that is sent.
\<close>

definition truncate_field :: "string \<Rightarrow> dict \<Rightarrow> dict" where
  "truncate_field k d =
     (case map_of d k of
        Some (JStr s) \<Rightarrow>
          if length s > 200 then set_key d k (JStr (take 200 s @ truncation_mark)) else d
      | _ \<Rightarrow> d)"

fun truncate_choice :: "json \<Rightarrow> json" where
  "truncate_choice (JObj choice) =
     (let c1 = truncate_field ''text'' choice;
          c2 = (case map_of c1 ''message'' of
                  Some (JObj message) \<Rightarrow>
                    set_key c1 ''message'' (JObj (truncate_field ''content'' message))
                | _ \<Rightarrow> c1)
      in JObj (truncate_field ''thinking'' c2))"
| "truncate_choice v = v"

definition log_response_info :: "bool \<Rightarrow> dict \<Rightarrow> dict" where
  "log_response_info debug_mode response_data =
     (if debug_mode then
        (case map_of response_data ''choices'' of
           Some (JList choices) \<Rightarrow>
             set_key response_data ''choices'' (JList (map truncate_choice choices))
         | _ \<Rightarrow> response_data)
      else response_data)"

text \<open>
  Lines 602-631 and 966-1005: the usage figures and the response. The field
  \<^verbatim>\<open>created\<close>, and the \<^verbatim>\<open>id\<close> of a chat response, are read from the clock and are
  left out.
\<close>

definition usage_of :: "nat \<Rightarrow> nat \<Rightarrow> nat \<Rightarrow> bool \<Rightarrow> json" where
  "usage_of prompt_tokens completion_tokens thinking_tokens with_thinking =
     (let usage = [(''prompt_tokens'', JInt (int prompt_tokens)),
                   (''completion_tokens'', JInt (int completion_tokens)),
                   (''total_tokens'',
                      JInt (int (prompt_tokens + completion_tokens + thinking_tokens)))]
      in JObj (if with_thinking
               then set_key usage ''thinking_tokens'' (JInt (int thinking_tokens)) else usage))"

definition translate_response ::
  "bool \<Rightarrow> (string \<Rightarrow> nat) \<Rightarrow> (json \<Rightarrow> string) \<Rightarrow> bool \<Rightarrow> dispatch \<Rightarrow> json \<Rightarrow> json
     \<Rightarrow> py_error + dict" where
  "translate_response debug_mode tokens py_str chat d prompt_text body =
     (case body of
        JObj bed_response \<Rightarrow>
          (case extract_content py_str bed_response of
             Inl e \<Rightarrow> Inl e
           | Inr content \<Rightarrow>
              (case (if contains ''claude-3-7'' (model_name d) \<and> use_thinking d
                     then extract_thinking bed_response else Inr (JStr [])) of
                 Inl e \<Rightarrow> Inl e
               | Inr thinking_content \<Rightarrow>
                  (let stop_reason = get_or bed_response ''stop_reason'' (JStr ''stop'')
                   in case count_tokens tokens prompt_text of
                        Inl e \<Rightarrow> Inl e
                      | Inr prompt_tokens \<Rightarrow>
                         (case count_tokens tokens content of
                            Inl e \<Rightarrow> Inl e
                          | Inr completion_tokens \<Rightarrow>
                             (case (if truthy thinking_content
                                    then count_tokens tokens thinking_content else Inr 0) of
                                Inl e \<Rightarrow> Inl e
                              | Inr thinking_tokens \<Rightarrow>
                                 (let choice0 =
                                        (if chat
                                         then [(''index'', JInt 0),
                                               (''message'', JObj [(''role'', JStr ''assistant''),
                                                                   (''content'', content)]),
                                               (''finish_reason'', stop_reason)]
                                         else [(''text'', content), (''index'', JInt 0),
                                               (''finish_reason'', stop_reason)]);
                                      choice = (if truthy thinking_content
                                                then set_key choice0 ''thinking'' thinking_content
                                                else choice0)
                                  in Inr (log_response_info debug_mode
                                      [(''object'', JStr (if chat then ''chat.completion''
                                                          else ''text_completion'')),
                                       (''model'', JStr (model_name d)),
                                       (''choices'', JList [JObj choice]),
                                       (''usage'',
                                          usage_of prompt_tokens completion_tokens
                                            thinking_tokens (truthy thinking_content))])))))))
      | _ \<Rightarrow> Inl TypeError)"

text \<open>
  The backend: the two operations of the runtime client, each giving the outcome of
  every attempt.
\<close>

record backend =
  invoke_model :: "string \<Rightarrow> dict \<Rightarrow> nat \<Rightarrow> json outcome"
  invoke_model_with_response_stream :: "string \<Rightarrow> dict \<Rightarrow> nat \<Rightarrow> json list outcome"

datatype http_response =
    Error400 string
  | Error500 py_error
  | Json200 dict
  | EventStream "sse list" "py_error option"

record handled =
  response :: http_response
  backend_calls :: nat

definition early_response :: "early \<Rightarrow> http_response" where
  "early_response e = (case e of Http400 msg \<Rightarrow> Error400 msg | Http500 err \<Rightarrow> Error500 err)"

text \<open>
  The part of a handler after the request is built: the streaming or the single-shot
  call through \<^verbatim>\<open>invoke_with_retry\<close>, then the translation. Every exception is
  answered with a 500.
\<close>

definition call_backend ::
  "bool \<Rightarrow> (string \<Rightarrow> nat) \<Rightarrow> (json \<Rightarrow> string) \<Rightarrow> backend \<Rightarrow> (nat \<Rightarrow> real) \<Rightarrow> bool
     \<Rightarrow> json \<Rightarrow> dispatch \<Rightarrow> handled" where
  "call_backend debug_mode tokens py_str be jitter chat prompt_text d =
     (if stream d then
        (let inv = invoke_with_retry debug_mode (invoke_model_with_response_stream be) jitter
                     (model_id d) (bed_params d)
         in \<lparr> response =
                (case result inv of
                   Returned frames \<Rightarrow>
                     (case (if chat then chat_stream (model_name d) frames
                            else completions_stream frames) of
                        (events, err) \<Rightarrow> EventStream events err)
                 | ReturnedNone \<Rightarrow> Error500 TypeError
                 | Raised e \<Rightarrow> Error500 e),
              backend_calls = attempts inv \<rparr>)
      else
        (let inv = invoke_with_retry debug_mode (invoke_model be) jitter
                     (model_id d) (bed_params d)
         in \<lparr> response =
                (case result inv of
                   Returned bed_response \<Rightarrow>
                     (case translate_response debug_mode tokens py_str chat d prompt_text
                             bed_response of
                        Inl e \<Rightarrow> Error500 e
                      | Inr openai_response \<Rightarrow> Json200 openai_response)
                 | ReturnedNone \<Rightarrow> Error500 TypeError
                 | Raised e \<Rightarrow> Error500 e),
              backend_calls = attempts inv \<rparr>))"

definition completions ::
  "bool \<Rightarrow> (string \<Rightarrow> nat) \<Rightarrow> (json \<Rightarrow> string) \<Rightarrow> backend \<Rightarrow> (nat \<Rightarrow> real) \<Rightarrow> dict
     \<Rightarrow> handled" where
  "completions debug_mode tokens py_str be jitter request =
     (case completions_params debug_mode request of
        Inl e \<Rightarrow> \<lparr> response = early_response e, backend_calls = 0 \<rparr>
      | Inr d \<Rightarrow>
          call_backend debug_mode tokens py_str be jitter False
            (get (log_request_info debug_mode request) ''prompt'') d)"

text \<open>
  \<^verbatim>\<open>" ".join([msg.get('content', '') for msg in messages])\<close> over the messages of the
  request, filtered or not: \<^verbatim>\<open>TypeError\<close> when a content is no string.
\<close>

fun message_content :: "json \<Rightarrow> json" where
  "message_content (JObj msg) = get_or msg ''content'' (JStr [])"
| "message_content _ = JNull"

definition prompt_text_of :: "dict \<Rightarrow> json" where
  "prompt_text_of req =
     (case message_list (get_or req ''messages'' (JList [])) of
        Inr msgs \<Rightarrow>
          (case join_texts (map message_content msgs) of
             Inr t \<Rightarrow> JStr t
           | Inl e \<Rightarrow> JNull)
      | Inl e \<Rightarrow> JNull)"

definition chat_completions ::
  "bool \<Rightarrow> (string \<Rightarrow> nat) \<Rightarrow> (json \<Rightarrow> string) \<Rightarrow> backend \<Rightarrow> (nat \<Rightarrow> real) \<Rightarrow> dict
     \<Rightarrow> handled" where
  "chat_completions debug_mode tokens py_str be jitter request =
     (case chat_completions_params debug_mode request of
        Inl e \<Rightarrow> \<lparr> response = early_response e, backend_calls = 0 \<rparr>
      | Inr d \<Rightarrow>
          call_backend debug_mode tokens py_str be jitter True
            (prompt_text_of (log_request_info debug_mode request)) d)"

text \<open>Reading a response: a figure of \<^verbatim>\<open>usage\<close>, and the first choice.\<close>

definition usage_field :: "dict \<Rightarrow> string \<Rightarrow> int option" where
  "usage_field resp k =
     (case map_of resp ''usage'' of
        Some (JObj usage) \<Rightarrow> (case map_of usage k of Some (JInt n) \<Rightarrow> Some n | _ \<Rightarrow> None)
      | _ \<Rightarrow> None)"

definition first_choice :: "dict \<Rightarrow> dict" where
  "first_choice resp =
     (case map_of resp ''choices'' of Some (JList (JObj choice # _)) \<Rightarrow> choice | _ \<Rightarrow> [])"

text \<open>
  An example exchange: a request to the thinking alias and a backend that answers with a
  thinking block and a text block.
\<close>

definition example_request :: dict where
  "example_request =
     [(''model'', JStr ''claude-3-7-sonnet-thinking''), (''prompt'', JStr ''Say hello''),
      (''max_tokens'', JInt 2000)]"

definition example_backend :: backend where
  "example_backend =
     \<lparr> invoke_model = (\<lambda>modelId body k. Success (JObj
          [(''content'',
              JList [JObj [(''type'', JStr ''thinking''), (''thinking'', JStr ''A greeting.'')],
                     JObj [(''type'', JStr ''text''), (''text'', JStr ''Hello!'')]]),
           (''stop_reason'', JStr ''end_turn'')])),
       invoke_model_with_response_stream =
         (\<lambda>modelId body k. Success (hello_frames @ [end_turn_frame])) \<rparr>"

definition example_response :: dict where
  "example_response =
     [(''object'', JStr ''text_completion''),
      (''model'', JStr ''claude-3-7-sonnet-thinking''),
      (''choices'',
         JList [JObj [(''text'', JStr ''Hello!''), (''index'', JInt 0),
                      (''finish_reason'', JStr ''end_turn''),
                      (''thinking'', JStr ''A greeting.'')]]),
      (''usage'',
         JObj [(''prompt_tokens'', JInt 9), (''completion_tokens'', JInt 6),
               (''total_tokens'', JInt 26), (''thinking_tokens'', JInt 11)])]"

definition is_assistant :: "json \<Rightarrow> bool" where
  "is_assistant msg = (case msg of JObj m \<Rightarrow> get m ''role'' = JStr ''assistant'' | _ \<Rightarrow> False)"

section \<open>The body a handler sends\<close>

text \<open>
  The body the backend receives from a handler: the request the handler built, passed
  through the debug block of \<^verbatim>\<open>invoke_with_retry\<close>; and the thinking budget and the
  \<^verbatim>\<open>max_tokens\<close> found in a body.
\<close>

definition completions_body :: "bool \<Rightarrow> dict \<Rightarrow> early + dict" where
  "completions_body debug_mode request =
     map_sum id (dispatched_body debug_mode) (completions_params debug_mode request)"

definition chat_completions_body :: "bool \<Rightarrow> dict \<Rightarrow> early + dict" where
  "chat_completions_body debug_mode request =
     map_sum id (dispatched_body debug_mode) (chat_completions_params debug_mode request)"

definition budget_tokens :: "dict \<Rightarrow> int option" where
  "budget_tokens body =
     (case map_of body ''thinking'' of
        Some (JObj t) \<Rightarrow> (case map_of t ''budget_tokens'' of Some (JInt b) \<Rightarrow> Some b | _ \<Rightarrow> None)
      | _ \<Rightarrow> None)"

definition max_tokens_of :: "dict \<Rightarrow> int option" where
  "max_tokens_of body = (case map_of body ''max_tokens'' of Some v \<Rightarrow> as_number v | None \<Rightarrow> None)"

text \<open>
  What the requests built by the two handlers have in common, as the proofs below use
  it: the alias is a string, \<^verbatim>\<open>max_tokens\<close> is a number and is capped, \<^verbatim>\<open>top_p\<close> is
  there exactly without thinking mode, and the thinking object is there exactly in
  thinking mode for an alias that contains \<^verbatim>\<open>claude-3-7\<close>.
\<close>

definition built_from :: "dict \<Rightarrow> dispatch \<Rightarrow> bool" where
  "built_from req d =
     (\<exists>n0 s. as_number (get_or req ''max_tokens'' (JInt DEFAULT_MAX_TOKENS)) = Some n0
        \<and> get_or req ''model'' (JStr ''claude-3-7-sonnet'') = JStr s
        \<and> model_name d = s
        \<and> model_id d = (case map_of MODEL_MAPPING s of Some i \<Rightarrow> i | None \<Rightarrow> DEFAULT_MODEL_ID)
        \<and> use_thinking d = use_thinking_mode req (JStr s)
        \<and> map_of (bed_params d) ''max_tokens'' =
              Some (if n0 > MAX_OUTPUT_TOKENS then JInt MAX_OUTPUT_TOKENS
                    else get_or req ''max_tokens'' (JInt DEFAULT_MAX_TOKENS))
        \<and> map_of (bed_params d) ''top_p'' =
              (if use_thinking d then None else Some (get_or req ''top_p'' (JInt 1)))
        \<and> (if contains ''claude-3-7'' s \<and> use_thinking d
            then \<exists>b. thinking_budget req (min n0 MAX_OUTPUT_TOKENS) = Inr b
                   \<and> map_of (bed_params d) ''thinking'' =
                        Some (JObj [(''type'', JStr ''enabled''), (''budget_tokens'', JInt b)])
            else map_of (bed_params d) ''thinking'' = None)
        \<and> map_of (bed_params d) ''model'' = None
        \<and> map_of (bed_params d) ''_model_name'' = None)"

text \<open>
  The body with the alias found for the model id attached, as the debug block hands it
  to the validator.
\<close>

definition tagged :: "string \<Rightarrow> dict \<Rightarrow> dict" where
  "tagged mid body =
     (if reverse_lookup mid \<noteq> [] then set_key body ''_model_name'' (JStr (reverse_lookup mid))
      else body)"

text \<open>
  Example requests: to the thinking alias with a given \<^verbatim>\<open>max_tokens\<close> and further
  fields, and to an alias without thinking support that asks for thinking.
\<close>

definition thinking_request :: "int \<Rightarrow> dict \<Rightarrow> dict" where
  "thinking_request max_tokens extra =
     [(''model'', JStr ''claude-3-7-sonnet-thinking''), (''prompt'', JStr ''Say hello''),
      (''max_tokens'', JInt max_tokens)] @ extra"

definition opus_thinking_request :: dict where
  "opus_thinking_request =
     [(''model'', JStr ''claude-3-opus''), (''prompt'', JStr ''Say hello''),
      (''thinking'', JBool True), (''top_p'', JInt 1)]"

text \<open>
  The bodies the example requests lead to: with a thinking object, and without one.
\<close>

definition thinking_body :: "int \<Rightarrow> int \<Rightarrow> dict" where
  "thinking_body max_tokens budget =
     [(''anthropic_version'', JStr ''bedrock-2023-05-31''),
      (''max_tokens'', JInt max_tokens),
      (''temperature'', JInt 1),
      (''messages'', JList [JObj [(''role'', JStr ''user''), (''content'', JStr ''Say hello'')]]),
      (''thinking'', JObj [(''type'', JStr ''enabled''), (''budget_tokens'', JInt budget)])]"

definition plain_body :: dict where
  "plain_body =
     [(''anthropic_version'', JStr ''bedrock-2023-05-31''),
      (''max_tokens'', JInt 4096),
      (''temperature'', JInt 1),
      (''messages'', JList [JObj [(''role'', JStr ''user''), (''content'', JStr ''Say hello'')]])]"

text \<open>
  Requests with a budget that is no number: in the thinking object and in a convenience
  field, for both endpoints; and a body with such a thinking object, as the validator
  may be handed.
\<close>

definition uncoercible_request :: dict where
  "uncoercible_request =
     thinking_request 10000 [(''thinking'', JObj [(''budget_tokens'', JStr ''abc'')])]"

definition uncoercible_field_request :: "string \<Rightarrow> dict" where
  "uncoercible_field_request field = thinking_request 10000 [(field, JStr ''abc'')]"

definition uncoercible_chat_request :: dict where
  "uncoercible_chat_request =
     [(''model'', JStr ''claude-3-7-sonnet-thinking''),
      (''messages'', JList [JObj [(''role'', JStr ''user''), (''content'', JStr ''Say hello'')]]),
      (''max_tokens'', JInt 10000), (''max_thinking_tokens'', JStr ''abc'')]"

definition uncoercible_body :: dict where
  "uncoercible_body =
     [(''max_tokens'', JInt 10000), (''thinking'', JObj [(''budget_tokens'', JStr ''abc'')])]"

text \<open>A chat request whose only message is a user message of 201 blanks.\<close>

definition long_blank_request :: dict where
  "long_blank_request =
     [(''model'', JStr ''claude-3-opus''),
      (''messages'',
         JList [JObj [(''role'', JStr ''user''), (''content'', JStr (replicate 201 CHR '' ''))]])]"

text \<open>A streaming request to \<^verbatim>\<open>/v1/completions\<close>.\<close>

definition stream_request :: dict where
  "stream_request =
     [(''model'', JStr ''claude-3-7-sonnet''), (''prompt'', JStr ''Say hello''),
      (''stream'', JBool True)]"

section \<open>Dicts as maps\<close>

lemma map_of_set_key [simp]:
  "map_of (set_key d k v) k' = (if k' = k then Some v else map_of d k')"
  by (simp add: set_key_def update_conv')

lemma map_of_del_key [simp]:
  "map_of (del_key d k) k' = (if k' = k then None else map_of d k')"
  by (simp add: del_key_def delete_conv')

declare retry_loop.simps [simp del]

text \<open>Debug logging touches only the messages of a request.\<close>

lemma log_request_info_other:
  "k \<noteq> ''messages'' \<Longrightarrow> map_of (log_request_info dbg req) k = map_of req k"
  by (simp add: log_request_info_def split: option.split json.split)

lemma get_log [simp]:
  "k \<noteq> ''messages'' \<Longrightarrow> get (log_request_info dbg req) k = get req k"
  "k \<noteq> ''messages'' \<Longrightarrow> get_or (log_request_info dbg req) k v = get_or req k v"
  by (simp_all add: get_def get_or_def log_request_info_other)

section \<open>The request a handler builds\<close>

lemma beta_features_other:
  "k \<noteq> ''anthropic_beta'' \<Longrightarrow> map_of (beta_features req n bp) k = map_of bp k"
proof -
  assume k: "k \<noteq> ''anthropic_beta''"
  define bp1 where "bp1 = (if truthy (get_or req ''enable_extended_output'' (JBool False)) \<and> n > 64000
                 then set_key bp ''anthropic_beta'' (JList [JStr ''output-128k-2025-02-19''])
                 else bp)"
  define bp2 where "bp2 = (if \<not> has_key bp1 ''anthropic_beta''
                       then set_key bp1 ''anthropic_beta'' (JList []) else bp1)"
  have b1: "map_of bp1 k = map_of bp k" using k by (simp add: bp1_def)
  have b2: "map_of bp2 k = map_of bp1 k" using k by (simp add: bp2_def)
  have "beta_features req n bp =
      (if truthy (get_or req ''enable_computer_use'' (JBool False)) then
         (case get bp2 ''anthropic_beta'' of
            JList fs \<Rightarrow> set_key bp2 ''anthropic_beta'' (JList (fs @ [JStr ''computer_20250212'']))
          | _ \<Rightarrow> bp2)
       else bp1)"
    unfolding beta_features_def bp2_def bp1_def Let_def by (rule refl)
  then show ?thesis
    using b1 b2 k by (cases "get bp2 ''anthropic_beta''") simp_all
qed


lemma claude_3_7_params_result:
  assumes "claude_3_7_params req name tm n bp = Inr bp'"
  shows "\<exists>s. name = JStr s \<and>
          (if contains ''claude-3-7'' s \<and> tm
           then \<exists>b. thinking_budget req n = Inr b
                  \<and> bp' = beta_features req n (set_key bp ''thinking''
                        (JObj [(''type'', JStr ''enabled''), (''budget_tokens'', JInt b)]))
           else bp' = (if contains ''claude-3-7'' s then beta_features req n bp else bp))"
proof (cases name)
  case (JStr s)
  define c where "c = contains ''claude-3-7'' s"
  have eq: "claude_3_7_params req name tm n bp =
       (if c then
            (if tm then
               (case thinking_budget req n of
                  Inl e \<Rightarrow> Inl e
                | Inr budget \<Rightarrow>
                    Inr (beta_features req n
                          (set_key bp ''thinking''
                             (JObj [(''type'', JStr ''enabled''),
                                    (''budget_tokens'', JInt budget)]))))
             else Inr (beta_features req n bp))
          else Inr bp)"
    unfolding claude_3_7_params_def c_def JStr by simp
  show ?thesis
  proof (cases "c \<and> tm")
    case True
    with assms eq obtain b where "thinking_budget req n = Inr b"
      "bp' = beta_features req n (set_key bp ''thinking''
                        (JObj [(''type'', JStr ''enabled''), (''budget_tokens'', JInt b)]))"
      by (cases "thinking_budget req n") simp_all
    with True JStr show ?thesis unfolding c_def by simp
  next
    case False
    with assms eq have "bp' = (if c then beta_features req n bp else bp)"
      by (cases c) simp_all
    with False JStr show ?thesis unfolding c_def by auto
  qed
qed (use assms in \<open>simp_all add: claude_3_7_params_def\<close>)


lemma use_thinking_mode_log [simp]:
  "use_thinking_mode (log_request_info dbg req) name = use_thinking_mode req name"
  by (simp add: use_thinking_mode_def)

lemma thinking_budget_log [simp]:
  "thinking_budget (log_request_info dbg req) n = thinking_budget req n"
  by (simp add: thinking_budget_def requested_budget_def)

text \<open>The request the shared builder returns.\<close>

lemma build_request_built:
  assumes br: "build_request (log_request_info dbg req) name mid tm n0 msgs sv = Inr d"
    and n0: "as_number (get_or req ''max_tokens'' (JInt DEFAULT_MAX_TOKENS)) = Some n0"
    and rm: "resolve_model name = Inr mid"
    and name: "name = get_or req ''model'' (JStr ''claude-3-7-sonnet'')"
    and tm: "tm = use_thinking_mode req name"
  shows "built_from req d"
proof -
  let ?req = "log_request_info dbg req"
  define n where "n = (if n0 > MAX_OUTPUT_TOKENS then MAX_OUTPUT_TOKENS else n0)"
  define bp0 where "bp0 = [(''anthropic_version'', JStr ''bedrock-2023-05-31''),
                 (''max_tokens'', if n0 > MAX_OUTPUT_TOKENS then JInt MAX_OUTPUT_TOKENS
                        else get_or ?req ''max_tokens'' (JInt DEFAULT_MAX_TOKENS)),
                 (''temperature'', get_or ?req ''temperature'' (JInt 1)),
                 (''messages'', msgs)]"
  define bp1 where "bp1 = (if \<not> tm then set_key bp0 ''top_p'' (get_or ?req ''top_p'' (JInt 1))
                 else bp0)"
  have unf: "build_request ?req name mid tm n0 msgs sv =
      (case claude_3_7_params ?req name tm n bp1 of
           Inl e \<Rightarrow> Inl (Http500 e)
         | Inr bp2 \<Rightarrow>
             Inr \<lparr> model_id = mid,
                   bed_params = (if truthy (get ?req ''stop'')
                                 then set_key bp2 ''stop_sequences'' sv else bp2),
                   stream = truthy (get_or ?req ''stream'' (JBool False)),
                   use_thinking = tm,
                   model_name = name_text name \<rparr>)"
    unfolding build_request_def Let_def bp1_def bp0_def n_def by (rule refl)
  from br unf obtain bp2 where cp: "claude_3_7_params ?req name tm n bp1 = Inr bp2"
    by (cases "claude_3_7_params ?req name tm n bp1") simp_all
  from br unf cp have d: "d = \<lparr> model_id = mid,
                   bed_params = (if truthy (get ?req ''stop'')
                                 then set_key bp2 ''stop_sequences'' sv else bp2),
                   stream = truthy (get_or ?req ''stream'' (JBool False)),
                   use_thinking = tm,
                   model_name = name_text name \<rparr>" by simp
  from claude_3_7_params_result [OF cp] obtain s where s: "name = JStr s"
    and res: "if contains ''claude-3-7'' s \<and> tm
           then \<exists>b. thinking_budget ?req n = Inr b
                  \<and> bp2 = beta_features ?req n (set_key bp1 ''thinking''
                        (JObj [(''type'', JStr ''enabled''), (''budget_tokens'', JInt b)]))
           else bp2 = (if contains ''claude-3-7'' s then beta_features ?req n bp1 else bp1)"
    by blast
  have mn: "min n0 MAX_OUTPUT_TOKENS = n" by (simp add: n_def)
  have b1: "map_of bp1 ''max_tokens'' =
                Some (if n0 > MAX_OUTPUT_TOKENS then JInt MAX_OUTPUT_TOKENS
                      else get_or req ''max_tokens'' (JInt DEFAULT_MAX_TOKENS))"
       "map_of bp1 ''top_p'' = (if tm then None else Some (get_or req ''top_p'' (JInt 1)))"
       "map_of bp1 ''thinking'' = None" "map_of bp1 ''model'' = None"
       "map_of bp1 ''_model_name'' = None"
    by (simp_all add: bp1_def bp0_def)
  have other: "map_of bp2 k = map_of bp1 k" if "k \<noteq> ''anthropic_beta''" "k \<noteq> ''thinking''" for k
    using res that by (auto simp: beta_features_other split: if_splits)
  have bpk: "map_of (bed_params d) k = map_of bp2 k" if "k \<noteq> ''stop_sequences''" for k
    using that by (simp add: d)
  have th: "if contains ''claude-3-7'' s \<and> tm
            then \<exists>b. thinking_budget req (min n0 MAX_OUTPUT_TOKENS) = Inr b
                   \<and> map_of bp2 ''thinking'' =
                        Some (JObj [(''type'', JStr ''enabled''), (''budget_tokens'', JInt b)])
            else map_of bp2 ''thinking'' = None"
  proof (cases "contains ''claude-3-7'' s \<and> tm")
    case True
    with res obtain b where b: "thinking_budget req n = Inr b"
      "bp2 = beta_features ?req n (set_key bp1 ''thinking''
                        (JObj [(''type'', JStr ''enabled''), (''budget_tokens'', JInt b)]))"
      by auto
    have "map_of bp2 ''thinking'' =
            Some (JObj [(''type'', JStr ''enabled''), (''budget_tokens'', JInt b)])"
      by (simp add: b(2) beta_features_other)
    with True b(1) show ?thesis unfolding mn by auto
  next
    case False
    with res have "bp2 = (if contains ''claude-3-7'' s then beta_features ?req n bp1 else bp1)"
      by simp
    then have "map_of bp2 ''thinking'' = map_of bp1 ''thinking''"
      by (simp add: beta_features_other)
    with False b1(3) show ?thesis by simp
  qed
  have mid: "mid = (case map_of MODEL_MAPPING s of Some i \<Rightarrow> i | None \<Rightarrow> DEFAULT_MODEL_ID)"
    using rm s by simp
  have ut: "use_thinking d = tm" and mnm: "model_name d = s" and mi: "model_id d = mid"
    by (simp_all add: d s)
  have k1: "map_of (bed_params d) ''max_tokens'' =
              Some (if n0 > MAX_OUTPUT_TOKENS then JInt MAX_OUTPUT_TOKENS
                    else get_or req ''max_tokens'' (JInt DEFAULT_MAX_TOKENS))"
    by (simp add: bpk other b1)
  have k2: "map_of (bed_params d) ''top_p'' =
              (if use_thinking d then None else Some (get_or req ''top_p'' (JInt 1)))"
    by (simp add: bpk other b1 ut)
  have k3: "if contains ''claude-3-7'' s \<and> use_thinking d
            then \<exists>b. thinking_budget req (min n0 MAX_OUTPUT_TOKENS) = Inr b
                   \<and> map_of (bed_params d) ''thinking'' =
                        Some (JObj [(''type'', JStr ''enabled''), (''budget_tokens'', JInt b)])
            else map_of (bed_params d) ''thinking'' = None"
    using th by (simp add: bpk ut)
  have k4: "map_of (bed_params d) ''model'' = None" "map_of (bed_params d) ''_model_name'' = None"
    by (simp_all add: bpk other b1)
  have nm: "get_or req ''model'' (JStr ''claude-3-7-sonnet'') = JStr s"
    using name s by simp
  have ut': "use_thinking d = use_thinking_mode req (JStr s)"
    using ut tm s by simp
  have mi': "model_id d = (case map_of MODEL_MAPPING s of Some i \<Rightarrow> i | None \<Rightarrow> DEFAULT_MODEL_ID)"
    using mi mid by simp
  show ?thesis
    unfolding built_from_def
    using n0 nm mnm mi' ut' k1 k2 k3 k4
    by - (rule exI [of _ n0], rule exI [of _ s], intro conjI, assumption+)
qed

lemma completions_built:
  assumes "completions_params dbg req = Inr d"
  shows "built_from req d"
proof -
  define prompt where "prompt = get req ''prompt''"
  define name where "name = get_or req ''model'' (JStr ''claude-3-7-sonnet'')"
  define mt where "mt = get_or req ''max_tokens'' (JInt DEFAULT_MAX_TOKENS)"
  note defs = completions_params_def Let_def prompt_def [symmetric] name_def [symmetric]
    mt_def [symmetric]
  from assms have tp: "truthy prompt"
    by (cases "truthy prompt") (simp_all add: defs)
  from assms tp obtain p where p: "prompt = JStr p"
    by (cases prompt) (simp_all add: defs)
  from assms tp p have sn: "strip_nonempty p"
    by (cases "strip_nonempty p") (simp_all add: defs)
  from assms tp p sn obtain mid where mid: "resolve_model name = Inr mid"
    by (cases "resolve_model name") (simp_all add: defs)
  from assms tp p sn mid obtain n0 where n0: "as_number mt = Some n0"
    by (cases "as_number mt") (simp_all add: defs)
  from assms tp p sn mid n0
  have "build_request (log_request_info dbg req) name mid (use_thinking_mode req name) n0
          (JList [JObj [(''role'', JStr ''user''), (''content'', prompt)]]) (get req ''stop'') = Inr d"
    by (simp add: defs)
  moreover have "as_number (get_or req ''max_tokens'' (JInt DEFAULT_MAX_TOKENS)) = Some n0"
    using n0 by (simp add: mt_def)
  ultimately show ?thesis
    using mid by (rule build_request_built) (simp_all add: name_def)
qed

lemma chat_completions_built:
  assumes "chat_completions_params dbg req = Inr d"
  shows "built_from req d"
proof -
  define name where "name = get_or req ''model'' (JStr ''claude-3-7-sonnet'')"
  define mt where "mt = get_or req ''max_tokens'' (JInt DEFAULT_MAX_TOKENS)"
  define ml where "ml = message_list (get_or (log_request_info dbg req) ''messages'' (JList []))"
  note defs = chat_completions_params_def Let_def name_def [symmetric] mt_def [symmetric]
    ml_def [symmetric]
  from assms obtain mid where mid: "resolve_model name = Inr mid"
    by (cases "resolve_model name") (simp_all add: defs)
  from assms mid obtain n0 where n0: "as_number mt = Some n0"
    by (cases "as_number mt") (simp_all add: defs)
  from assms mid n0 obtain msgs where msgs: "ml = Inr msgs"
    by (cases ml) (simp_all add: defs)
  from assms mid n0 msgs obtain fm where fm: "filter_messages (length msgs) 0 msgs = Inr fm"
    by (cases "filter_messages (length msgs) 0 msgs") (simp_all add: defs)
  from assms mid n0 msgs fm
  have "build_request (log_request_info dbg req) name mid (use_thinking_mode req name) n0
          (JList fm) (case get req ''stop'' of JList xs \<Rightarrow> JList xs | stop \<Rightarrow> JList [stop]) = Inr d"
    by (simp add: defs split: if_splits)
  moreover have "as_number (get_or req ''max_tokens'' (JInt DEFAULT_MAX_TOKENS)) = Some n0"
    using n0 by (simp add: mt_def)
  ultimately show ?thesis
    using mid by (rule build_request_built) (simp_all add: name_def)
qed

section \<open>The validator, block by block\<close>

lemma reverse_lookup_not_thinking: "reverse_lookup m \<noteq> thinking_model_name"
  by (simp add: reverse_lookup_def MODEL_MAPPING_def thinking_model_name_def)

lemma as_number_py_int: "as_number v = Some n \<Longrightarrow> py_int v = Some n"
  by (cases v) auto

lemma check_thinking_thinking:
  assumes "map_of vp ''thinking'' = Some v"
  shows "\<exists>t b. map_of (check_thinking vp) ''thinking'' = Some (JObj t)
           \<and> map_of t ''budget_tokens'' = Some (JInt b) \<and> 1024 \<le> b
           \<and> map_of t ''type'' = Some (JStr ''enabled'')"
proof -
  define t0 where "t0 = (case get vp ''thinking'' of JObj t \<Rightarrow> t | _ \<Rightarrow> default_thinking)"
  define t1 where "t1 = (if \<not> has_key t0 ''type'' \<or> get t0 ''type'' \<noteq> JStr ''enabled''
                then set_key t0 ''type'' (JStr ''enabled'') else t0)"
  define t2 where "t2 = (if \<not> has_key t1 ''budget_tokens''
                then set_key t1 ''budget_tokens'' (JInt 4000)
                else (case py_int (get t1 ''budget_tokens'') of
                        Some budget \<Rightarrow>
                          set_key t1 ''budget_tokens''
                            (JInt (if budget < 1024 then 1024 else budget))
                      | None \<Rightarrow> set_key t1 ''budget_tokens'' (JInt 4000)))"
  have ct: "check_thinking vp = set_key vp ''thinking'' (JObj t2)"
    using assms unfolding check_thinking_def Let_def t0_def t1_def t2_def
    by (simp add: has_key_def)
  have ty1: "map_of t1 ''type'' = Some (JStr ''enabled'')"
    by (simp add: t1_def has_key_def get_def get_or_def split: option.splits)
  have ty2: "map_of t2 ''type'' = Some (JStr ''enabled'')"
    using ty1 by (simp add: t2_def split: option.splits)
  have b2: "\<exists>b. map_of t2 ''budget_tokens'' = Some (JInt b) \<and> 1024 \<le> b"
    by (simp add: t2_def split: option.splits)
  show ?thesis using ct ty2 b2 by simp
qed

lemma check_thinking_other:
  "k \<noteq> ''thinking'' \<Longrightarrow> map_of (check_thinking vp) k = map_of vp k"
  by (simp add: check_thinking_def Let_def)

lemma check_thinking_absent:
  "map_of vp ''thinking'' = None \<Longrightarrow> check_thinking vp = vp"
  by (simp add: check_thinking_def has_key_def)


lemma check_thinking_exact:
  assumes "map_of vp ''thinking'' = Some (JObj [(''type'', JStr ''enabled''), (''budget_tokens'', JInt b)])"
  shows "map_of (check_thinking vp) ''thinking'' =
           Some (JObj [(''type'', JStr ''enabled''), (''budget_tokens'', JInt (max 1024 b))])"
  using assms by (simp add: check_thinking_def Let_def has_key_def get_def get_or_def set_key_def max_def update_conv')

lemma check_max_tokens_other:
  "k \<noteq> ''max_tokens'' \<Longrightarrow> map_of (check_max_tokens on vp) k = map_of vp k"
  by (simp add: check_max_tokens_def split: option.splits)

lemma check_max_tokens_value:
  assumes "map_of vp ''max_tokens'' = Some v" "py_int v = Some n"
  shows "map_of (check_max_tokens True vp) ''max_tokens'' = Some (if n < 1024 then JInt 1024 else v)"
  using assms by (simp add: check_max_tokens_def has_key_def get_def get_or_def)

lemma auto_add_thinking_skip:
  "\<not> tm \<or> map_of vp ''thinking'' \<noteq> None \<Longrightarrow> auto_add_thinking tm vp = vp"
  by (auto simp: auto_add_thinking_def has_key_def)

lemma check_budget_absent:
  "map_of vp ''thinking'' = None \<Longrightarrow> check_budget vp = vp"
  by (simp add: check_budget_def get_def get_or_def)

lemma check_budget_exact:
  assumes th: "map_of vp ''thinking'' = Some (JObj t)"
    and b: "map_of t ''budget_tokens'' = Some (JInt b)"
    and mt: "py_int (get_or vp ''max_tokens'' (JInt DEFAULT_MAX_TOKENS)) = Some m"
  shows "map_of (check_budget vp) ''thinking'' = Some (JObj t)"
    and "map_of (check_budget vp) ''top_p'' = None"
    and "map_of (check_budget vp) ''max_tokens'' =
           (if m \<le> b then Some (JInt (b + 1)) else map_of vp ''max_tokens'')"
    and "k \<noteq> ''top_p'' \<Longrightarrow> k \<noteq> ''max_tokens'' \<Longrightarrow> map_of (check_budget vp) k = map_of vp k"
proof -
  have ne: "t \<noteq> []" using b by auto
  have cb: "check_budget vp =
      (let vp2 = (if m \<le> b then set_key vp ''max_tokens'' (JInt (b + 1)) else vp)
       in if has_key vp2 ''top_p'' then del_key vp2 ''top_p'' else vp2)"
    using th b mt ne unfolding check_budget_def Let_def
    by (simp add: get_def get_or_def)
  show "map_of (check_budget vp) ''thinking'' = Some (JObj t)"
    using th by (simp add: cb Let_def)
  show "map_of (check_budget vp) ''top_p'' = None"
    by (simp add: cb Let_def has_key_def)
  show "map_of (check_budget vp) ''max_tokens'' =
           (if m \<le> b then Some (JInt (b + 1)) else map_of vp ''max_tokens'')"
    by (simp add: cb Let_def)
  show "k \<noteq> ''top_p'' \<Longrightarrow> k \<noteq> ''max_tokens'' \<Longrightarrow> map_of (check_budget vp) k = map_of vp k"
    by (simp add: cb Let_def)
qed

lemma validate_thinking_body:
  assumes th: "map_of p ''thinking'' =
                 Some (JObj [(''type'', JStr ''enabled''), (''budget_tokens'', JInt b)])"
    and mt: "map_of p ''max_tokens'' = Some mtv" and num: "as_number mtv = Some n"
  shows "map_of (validate_bedrock_request p) ''thinking'' =
           Some (JObj [(''type'', JStr ''enabled''), (''budget_tokens'', JInt (max 1024 b))])"
    and "map_of (validate_bedrock_request p) ''top_p'' = None"
    and "map_of (validate_bedrock_request p) ''max_tokens'' =
           Some (if max n 1024 \<le> max 1024 b then JInt (max 1024 b + 1)
                 else if n < 1024 then JInt 1024 else mtv)"
    and "k \<noteq> ''thinking'' \<Longrightarrow> k \<noteq> ''top_p'' \<Longrightarrow> k \<noteq> ''max_tokens'' \<Longrightarrow>
           map_of (validate_bedrock_request p) k = map_of p k"
proof -
  define vp1 where "vp1 = check_thinking p"
  define vp2 where "vp2 = check_max_tokens True vp1"
  let ?t = "[(''type'', JStr ''enabled''), (''budget_tokens'', JInt (max 1024 b))]"
  have t1: "map_of vp1 ''thinking'' = Some (JObj ?t)"
    unfolding vp1_def by (rule check_thinking_exact [OF th])
  have m1: "map_of vp1 ''max_tokens'' = Some mtv"
    unfolding vp1_def using mt by (simp add: check_thinking_other)
  have t2: "map_of vp2 ''thinking'' = Some (JObj ?t)"
    unfolding vp2_def using t1 by (simp add: check_max_tokens_other)
  have m2: "map_of vp2 ''max_tokens'' = Some (if n < 1024 then JInt 1024 else mtv)"
    unfolding vp2_def by (rule check_max_tokens_value [OF m1 as_number_py_int [OF num]])
  have hk: "has_key p ''thinking''" using th by (simp add: has_key_def)
  have v: "validate_bedrock_request p = check_budget vp2"
    unfolding validate_bedrock_request_def Let_def vp2_def vp1_def
    using hk t2 unfolding vp2_def vp1_def
    by (simp add: auto_add_thinking_skip)
  have bt: "map_of ?t ''budget_tokens'' = Some (JInt (max 1024 b))" by simp
  have pm: "py_int (get_or vp2 ''max_tokens'' (JInt DEFAULT_MAX_TOKENS)) = Some (max n 1024)"
    using m2 as_number_py_int [OF num] by (simp add: get_or_def max_def)
  note cb = check_budget_exact [OF t2 bt pm]
  show "map_of (validate_bedrock_request p) ''thinking'' = Some (JObj ?t)"
    unfolding v by (rule cb(1))
  show "map_of (validate_bedrock_request p) ''top_p'' = None"
    unfolding v by (rule cb(2))
  show "map_of (validate_bedrock_request p) ''max_tokens'' =
           Some (if max n 1024 \<le> max 1024 b then JInt (max 1024 b + 1)
                 else if n < 1024 then JInt 1024 else mtv)"
    unfolding v cb(3) using m2 by simp
  show "map_of (validate_bedrock_request p) k = map_of p k"
    if "k \<noteq> ''thinking''" "k \<noteq> ''top_p''" "k \<noteq> ''max_tokens''"
    unfolding v using that cb(4) [of k]
    by (simp add: vp2_def vp1_def check_max_tokens_other check_thinking_other)
qed

lemma validate_no_thinking:
  assumes "map_of p ''thinking'' = None" "\<not> model_is_thinking p"
  shows "validate_bedrock_request p = p"
proof -
  have c1: "check_thinking p = p" by (rule check_thinking_absent [OF assms(1)])
  have c2: "check_max_tokens False p = p" by (simp add: check_max_tokens_def)
  have c3: "auto_add_thinking False p = p" by (simp add: auto_add_thinking_skip)
  have c4: "check_budget p = p" by (rule check_budget_absent [OF assms(1)])
  show ?thesis
    unfolding validate_bedrock_request_def Let_def
    using assms by (simp add: has_key_def c1 c2 c3 c4)
qed

lemma tagged_other: "k \<noteq> ''_model_name'' \<Longrightarrow> map_of (tagged mid body) k = map_of body k"
  by (simp add: tagged_def)

lemma tagged_not_thinking:
  assumes "map_of body ''model'' = None" "map_of body ''_model_name'' = None"
  shows "\<not> model_is_thinking (tagged mid body)"
  using assms reverse_lookup_not_thinking [of mid]
  by (simp add: model_is_thinking_def tagged_def has_key_def get_def get_or_def)

lemma prepare_body_debug:
  "k \<noteq> ''_model_name'' \<Longrightarrow>
   map_of (prepare_body True mid body) k = map_of (validate_bedrock_request (tagged mid body)) k"
  by (simp add: prepare_body_def Let_def tagged_def)

section \<open>The body that is dispatched\<close>

lemma dispatched_off [simp]: "dispatched_body False d = bed_params d"
  by (simp add: dispatched_body_def prepare_body_def)

lemma dispatched_thinking:
  assumes th: "map_of (bed_params d) ''thinking'' =
                 Some (JObj [(''type'', JStr ''enabled''), (''budget_tokens'', JInt b)])"
    and mt: "map_of (bed_params d) ''max_tokens'' = Some mtv" and num: "as_number mtv = Some n"
  shows "budget_tokens (dispatched_body dbg d) = Some (if dbg then max 1024 b else b)"
    and "max_tokens_of (dispatched_body dbg d) =
           Some (if dbg then (if max n 1024 \<le> max 1024 b then max 1024 b + 1 else max n 1024)
                 else n)"
    and "dbg \<Longrightarrow> map_of (dispatched_body dbg d) ''top_p'' = None"
proof -
  let ?p = "tagged (model_id d) (bed_params d)"
  have th': "map_of ?p ''thinking'' =
                 Some (JObj [(''type'', JStr ''enabled''), (''budget_tokens'', JInt b)])"
    using th by (simp add: tagged_other)
  have mt': "map_of ?p ''max_tokens'' = Some mtv" using mt by (simp add: tagged_other)
  note v = validate_thinking_body [OF th' mt' num]
  have k: "map_of (dispatched_body True d) k = map_of (validate_bedrock_request ?p) k"
    if "k \<noteq> ''_model_name''" for k
    using that by (simp add: dispatched_body_def prepare_body_debug)
  show "budget_tokens (dispatched_body dbg d) = Some (if dbg then max 1024 b else b)"
  proof (cases dbg)
    case True
    then show ?thesis by (simp add: budget_tokens_def k v(1))
  next
    case False
    then show ?thesis using th by (simp add: budget_tokens_def)
  qed
  show "max_tokens_of (dispatched_body dbg d) =
           Some (if dbg then (if max n 1024 \<le> max 1024 b then max 1024 b + 1 else max n 1024)
                 else n)"
  proof (cases dbg)
    case True
    then show ?thesis using num by (simp add: max_tokens_of_def k v(3) max_def)
  next
    case False
    then show ?thesis using mt num by (simp add: max_tokens_of_def)
  qed
  show "map_of (dispatched_body dbg d) ''top_p'' = None" if dbg
    using that by (simp add: k v(2))
qed

lemma dispatched_no_thinking:
  assumes "map_of (bed_params d) ''thinking'' = None" "map_of (bed_params d) ''model'' = None"
    "map_of (bed_params d) ''_model_name'' = None" "k \<noteq> ''_model_name''"
  shows "map_of (dispatched_body dbg d) k = map_of (bed_params d) k"
proof (cases dbg)
  case True
  let ?p = "tagged (model_id d) (bed_params d)"
  have "map_of ?p ''thinking'' = None" using assms(1) by (simp add: tagged_other)
  from validate_no_thinking [OF this tagged_not_thinking [OF assms(2,3)]]
  have "validate_bedrock_request ?p = ?p" .
  then show ?thesis using True assms(4)
    by (simp add: dispatched_body_def prepare_body_debug tagged_other)
next
  case False
  then show ?thesis by simp
qed

lemma thinking_budget_bounds:
  assumes "thinking_budget req n = Inr b" "1280 \<le> n"
  shows "1024 \<le> b" "b < n"
proof -
  from assms(1) obtain bv where b: "b = (if max 1024 bv \<ge> n then int_times_0_8 n else max 1024 bv)"
    by (auto simp: thinking_budget_def Let_def split: option.splits)
  have t: "int_times_0_8 n = (4 * n) div 5" using assms(2)
    by (simp add: int_times_0_8_def trunc_div_def)
  show "1024 \<le> b" using b t assms(2) by (auto split: if_splits)
  show "b < n" using b t assms(2) by (auto split: if_splits)
qed


lemma thinking_budget_small:
  assumes "thinking_budget req n = Inr b" "n < 1024"
  shows "b < 1024"
proof -
  from assms(1) obtain bv where b: "b = (if max 1024 bv \<ge> n then int_times_0_8 n else max 1024 bv)"
    by (auto simp: thinking_budget_def Let_def split: option.splits)
  have "int_times_0_8 n < 1024" using assms(2)
    by (simp add: int_times_0_8_def trunc_div_def) linarith
  then show ?thesis using b assms(2) by (auto split: if_splits)
qed

lemma body_dispatched:
  assumes "completions_body dbg req = Inr body \<or> chat_completions_body dbg req = Inr body"
  obtains d where "built_from req d" "body = dispatched_body dbg d"
  using assms
proof
  assume "completions_body dbg req = Inr body"
  then obtain d where "completions_params dbg req = Inr d" "body = dispatched_body dbg d"
    by (cases "completions_params dbg req") (auto simp: completions_body_def)
  then show ?thesis using that completions_built by blast
next
  assume "chat_completions_body dbg req = Inr body"
  then obtain d where "chat_completions_params dbg req = Inr d" "body = dispatched_body dbg d"
    by (cases "chat_completions_params dbg req") (auto simp: chat_completions_body_def)
  then show ?thesis using that chat_completions_built by blast
qed

text \<open>A dispatched body has a thinking object only when the handler put one in.\<close>

lemma thinking_sent:
  assumes bf: "built_from req d" and hk: "has_key (dispatched_body dbg d) ''thinking''"
  obtains n0 s b mtv where
    "as_number (get_or req ''max_tokens'' (JInt DEFAULT_MAX_TOKENS)) = Some n0"
    "get_or req ''model'' (JStr ''claude-3-7-sonnet'') = JStr s"
    "contains ''claude-3-7'' s" "use_thinking d"
    "thinking_budget req (min n0 MAX_OUTPUT_TOKENS) = Inr b"
    "map_of (bed_params d) ''thinking'' =
       Some (JObj [(''type'', JStr ''enabled''), (''budget_tokens'', JInt b)])"
    "map_of (bed_params d) ''max_tokens'' = Some mtv"
    "as_number mtv = Some (min n0 MAX_OUTPUT_TOKENS)"
    "map_of (bed_params d) ''top_p'' = None"
proof -
  from bf obtain n0 s where f:
    "as_number (get_or req ''max_tokens'' (JInt DEFAULT_MAX_TOKENS)) = Some n0"
    "get_or req ''model'' (JStr ''claude-3-7-sonnet'') = JStr s"
    "map_of (bed_params d) ''max_tokens'' =
              Some (if n0 > MAX_OUTPUT_TOKENS then JInt MAX_OUTPUT_TOKENS
                    else get_or req ''max_tokens'' (JInt DEFAULT_MAX_TOKENS))"
    "map_of (bed_params d) ''top_p'' =
              (if use_thinking d then None else Some (get_or req ''top_p'' (JInt 1)))"
    "if contains ''claude-3-7'' s \<and> use_thinking d
            then \<exists>b. thinking_budget req (min n0 MAX_OUTPUT_TOKENS) = Inr b
                   \<and> map_of (bed_params d) ''thinking'' =
                        Some (JObj [(''type'', JStr ''enabled''), (''budget_tokens'', JInt b)])
            else map_of (bed_params d) ''thinking'' = None"
    "map_of (bed_params d) ''model'' = None"
    "map_of (bed_params d) ''_model_name'' = None"
    unfolding built_from_def by blast
  have c: "contains ''claude-3-7'' s \<and> use_thinking d"
  proof (rule ccontr)
    assume "\<not> (contains ''claude-3-7'' s \<and> use_thinking d)"
    with f(5) have "map_of (bed_params d) ''thinking'' = None" by simp
    from dispatched_no_thinking [OF this f(6,7), of "''thinking''" dbg] this hk
    show False by (simp add: has_key_def)
  qed
  with f(5) obtain b where b: "thinking_budget req (min n0 MAX_OUTPUT_TOKENS) = Inr b"
    "map_of (bed_params d) ''thinking'' =
       Some (JObj [(''type'', JStr ''enabled''), (''budget_tokens'', JInt b)])"
    by auto
  define mtv where "mtv = (if n0 > MAX_OUTPUT_TOKENS then JInt MAX_OUTPUT_TOKENS
                    else get_or req ''max_tokens'' (JInt DEFAULT_MAX_TOKENS))"
  have m1: "map_of (bed_params d) ''max_tokens'' = Some mtv" using f(3) by (simp add: mtv_def)
  have m2: "as_number mtv = Some (min n0 MAX_OUTPUT_TOKENS)"
    using f(1) by (simp add: mtv_def min_def)
  have tp: "map_of (bed_params d) ''top_p'' = None" using f(4) c by simp
  from that [OF f(1,2) _ _ b m1 m2 tp] c show ?thesis by blast
qed


section \<open>The thinking budget that is sent\<close>




text \<open>
  With debug mode on the validator runs, and every body that goes out with a thinking
  object has no \<^verbatim>\<open>top_p\<close> and a budget with \<open>1024 \<le> budget_tokens < max_tokens\<close>.
\<close>

lemma validated_thinking_invariant:
  assumes sent: "completions_body True req = Inr body \<or> chat_completions_body True req = Inr body"
    and hk: "has_key body ''thinking''"
  shows "\<not> has_key body ''top_p''"
    and "\<exists>b m. budget_tokens body = Some b \<and> max_tokens_of body = Some m
                   \<and> 1024 \<le> b \<and> b < m"
proof -
  from sent obtain d where d: "built_from req d" "body = dispatched_body True d"
    by (rule body_dispatched)
  from hk d(2) have hk': "has_key (dispatched_body True d) ''thinking''" by simp
  from thinking_sent [OF d(1) hk'] obtain n0 s b mtv where f:
    "map_of (bed_params d) ''thinking'' =
       Some (JObj [(''type'', JStr ''enabled''), (''budget_tokens'', JInt b)])"
    "map_of (bed_params d) ''max_tokens'' = Some mtv"
    "as_number mtv = Some (min n0 MAX_OUTPUT_TOKENS)"
    by blast
  define n where "n = min n0 MAX_OUTPUT_TOKENS"
  note dt = dispatched_thinking [OF f(1,2,3), of True]
  show "\<not> has_key body ''top_p''" using dt(3) by (simp add: has_key_def d(2))
  define B where "B = max 1024 b"
  define M where "M = (if max n 1024 \<le> B then B + 1 else max n 1024)"
  have "budget_tokens body = Some B" "max_tokens_of body = Some M"
    using dt(1,2) by (simp_all add: d(2) B_def M_def n_def)
  moreover have "1024 \<le> B" by (simp add: B_def)
  moreover have "B < M" unfolding M_def max_def by (simp split: if_splits)
  ultimately show "\<exists>b m. budget_tokens body = Some b \<and> max_tokens_of body = Some m
                   \<and> 1024 \<le> b \<and> b < m" by blast
qed

text \<open>
  Claim C2 does not hold of the code. \<^verbatim>\<open>validate_bedrock_request\<close> is called only
  inside the \<^verbatim>\<open>if DEBUG_MODE:\<close> block of \<^verbatim>\<open>invoke_with_retry\<close>; with debug mode off,
  the default, the body goes out as the handler built it. For the thinking alias and
  \<^verbatim>\<open>max_tokens = 1000\<close> the handler computes \<^verbatim>\<open>max(1024, 4000)\<close>, finds it not below
  \<^verbatim>\<open>max_tokens\<close> and resets it to \<^verbatim>\<open>int(1000 * 0.8) = 800\<close>, which is sent: a budget
  below 1024. For \<^verbatim>\<open>max_tokens = 1279\<close> the budget sent is 1023. With debug mode on
  the first request goes out with budget 1024 and \<^verbatim>\<open>max_tokens = 1025\<close>.
\<close>

theorem thinking_bounds_unvalidated:
  "completions_body False (thinking_request 1000 []) = Inr (thinking_body 1000 800)
   \<and> budget_tokens (thinking_body 1000 800) = Some 800
   \<and> \<not> (1024::int) \<le> 800
   \<and> completions_body False (thinking_request 1279 []) = Inr (thinking_body 1279 1023)
   \<and> budget_tokens (thinking_body 1279 1023) = Some 1023
   \<and> completions_body True (thinking_request 1000 []) = Inr (thinking_body 1025 1024)"
proof -
  have "completions_body False (thinking_request 1000 []) = Inr (thinking_body 1000 800)"
    by code_simp
  moreover have "budget_tokens (thinking_body 1000 800) = Some 800"
    by (simp add: budget_tokens_def thinking_body_def)
  moreover have "\<not> (1024::int) \<le> 800" by simp
  moreover have "completions_body False (thinking_request 1279 []) = Inr (thinking_body 1279 1023)"
    by code_simp
  moreover have "budget_tokens (thinking_body 1279 1023) = Some 1023"
    by (simp add: budget_tokens_def thinking_body_def)
  moreover have "completions_body True (thinking_request 1000 []) = Inr (thinking_body 1025 1024)"
    by code_simp
  ultimately show ?thesis by - (intro conjI, assumption+)
qed

text \<open>
  Claim C5, as the validator has it. For a request dispatched with a thinking object and
  \<^verbatim>\<open>max_tokens < 1024\<close>, \<^verbatim>\<open>validate_bedrock_request\<close>, which \<^verbatim>\<open>invoke_with_retry\<close>
  runs in its debug block, raises \<^verbatim>\<open>max_tokens\<close> to 1024 and then, the budget having
  been raised to 1024 as well and \<^verbatim>\<open>max_tokens\<close> having to exceed it, to 1025: the body
  goes out with \<^verbatim>\<open>max_tokens = 1025\<close> and \<^verbatim>\<open>budget_tokens = 1024\<close>.
\<close>

theorem small_max_tokens:
  assumes sent: "completions_body True req = Inr body \<or> chat_completions_body True req = Inr body"
    and hk: "has_key body ''thinking''"
    and n0: "as_number (get_or req ''max_tokens'' (JInt DEFAULT_MAX_TOKENS)) = Some n0"
    and small: "n0 < 1024"
  shows "max_tokens_of body = Some 1025 \<and> budget_tokens body = Some 1024"
proof -
  from sent obtain d where d: "built_from req d" "body = dispatched_body True d"
    by (rule body_dispatched)
  from hk d(2) have hk': "has_key (dispatched_body True d) ''thinking''" by simp
  from thinking_sent [OF d(1) hk'] obtain n0' s b mtv where f:
    "as_number (get_or req ''max_tokens'' (JInt DEFAULT_MAX_TOKENS)) = Some n0'"
    "thinking_budget req (min n0' MAX_OUTPUT_TOKENS) = Inr b"
    "map_of (bed_params d) ''thinking'' =
       Some (JObj [(''type'', JStr ''enabled''), (''budget_tokens'', JInt b)])"
    "map_of (bed_params d) ''max_tokens'' = Some mtv"
    "as_number mtv = Some (min n0' MAX_OUTPUT_TOKENS)"
    by blast
  from f(1) n0 have e: "n0' = n0" by simp
  have mn: "min n0 MAX_OUTPUT_TOKENS = n0" using small by (simp add: MAX_OUTPUT_TOKENS_def)
  from f(2) e mn have tb: "thinking_budget req n0 = Inr b" by simp
  from thinking_budget_small [OF tb small] have b: "b < 1024" .
  then have B: "max 1024 b = 1024" by simp
  have N: "max n0 1024 = 1024" using small by simp
  note dt = dispatched_thinking(1,2) [OF f(3,4,5), of True, unfolded e mn B N]
  from dt show ?thesis by (simp add: d(2))
qed

theorem small_max_tokens_witness:
  "completions_body True (thinking_request 1000 []) = Inr (thinking_body 1025 1024)
   \<and> has_key (thinking_body 1025 1024) ''thinking''
   \<and> as_number (get_or (thinking_request 1000 []) ''max_tokens'' (JInt DEFAULT_MAX_TOKENS))
        = Some 1000
   \<and> (1000::int) < 1024
   \<and> max_tokens_of (thinking_body 1025 1024) = Some 1025
   \<and> budget_tokens (thinking_body 1025 1024) = Some 1024"
proof -
  have run: "completions_body True (thinking_request 1000 []) = Inr (thinking_body 1025 1024)"
    by code_simp
  have hk: "has_key (thinking_body 1025 1024) ''thinking''"
    by (simp add: thinking_body_def has_key_def)
  have n0: "as_number (get_or (thinking_request 1000 []) ''max_tokens'' (JInt DEFAULT_MAX_TOKENS))
        = Some 1000"
    by (simp add: thinking_request_def get_or_def)
  have small: "(1000::int) < 1024" by simp
  note t = small_max_tokens [OF disjI1 [OF run] hk n0 small]
  have m: "max_tokens_of (thinking_body 1025 1024) = Some 1025"
    using t [THEN conjunct1] by simp
  have b: "budget_tokens (thinking_body 1025 1024) = Some 1024"
    using t [THEN conjunct2] by simp
  show ?thesis using run hk n0 small m b by - (intro conjI, assumption+)
qed

text \<open>
  The value the claim names is not what the validator leaves: for \<^verbatim>\<open>max_tokens = 1000\<close>
  the validated body carries 1025, not 1024.
\<close>

theorem small_max_tokens_counterexample:
  "completions_body True (thinking_request 1000 []) = Inr (thinking_body 1025 1024)
   \<and> max_tokens_of (thinking_body 1025 1024) = Some 1025
   \<and> (1025::int) \<noteq> 1024"
proof -
  have "completions_body True (thinking_request 1000 []) = Inr (thinking_body 1025 1024)"
    by code_simp
  moreover have "max_tokens_of (thinking_body 1025 1024) = Some 1025"
    by (simp add: max_tokens_of_def thinking_body_def)
  moreover have "(1025::int) \<noteq> 1024" by simp
  ultimately show ?thesis by - (intro conjI, assumption+)
qed

text \<open>
  Claim C9. A request whose alias does not contain \<^verbatim>\<open>claude-3-7\<close> and that passes
  \<^verbatim>\<open>thinking: true\<close> is dispatched with no thinking object at all and without
  \<^verbatim>\<open>top_p\<close>.
\<close>

theorem thinking_dropped_without_claude_3_7:
  assumes sent: "completions_body dbg req = Inr body \<or> chat_completions_body dbg req = Inr body"
    and model: "get_or req ''model'' (JStr ''claude-3-7-sonnet'') = JStr s"
    and other: "\<not> contains ''claude-3-7'' s"
    and asked: "get req ''thinking'' = JBool True"
  shows "\<not> has_key body ''thinking'' \<and> \<not> has_key body ''top_p''"
proof -
  from sent obtain d where d: "built_from req d" "body = dispatched_body dbg d"
    by (rule body_dispatched)
  from d(1) obtain n0 s' where f:
    "get_or req ''model'' (JStr ''claude-3-7-sonnet'') = JStr s'"
    "use_thinking d = use_thinking_mode req (JStr s')"
    "map_of (bed_params d) ''top_p'' =
              (if use_thinking d then None else Some (get_or req ''top_p'' (JInt 1)))"
    "if contains ''claude-3-7'' s' \<and> use_thinking d
            then \<exists>b. thinking_budget req (min n0 MAX_OUTPUT_TOKENS) = Inr b
                   \<and> map_of (bed_params d) ''thinking'' =
                        Some (JObj [(''type'', JStr ''enabled''), (''budget_tokens'', JInt b)])
            else map_of (bed_params d) ''thinking'' = None"
    "map_of (bed_params d) ''model'' = None"
    "map_of (bed_params d) ''_model_name'' = None"
    unfolding built_from_def by blast
  from f(1) model have e: "s' = s" by simp
  have "get_or req ''thinking'' (JBool False) = JBool True"
    using asked by (simp add: get_def get_or_def split: option.splits)
  then have ut: "use_thinking d" using f(2) by (simp add: use_thinking_mode_def)
  have th: "map_of (bed_params d) ''thinking'' = None" using f(4) other e by simp
  have tp: "map_of (bed_params d) ''top_p'' = None" using f(3) ut by simp
  from dispatched_no_thinking [OF th f(5,6), of "''thinking''" dbg] th
  have 1: "\<not> has_key body ''thinking''" by (simp add: has_key_def d(2))
  from dispatched_no_thinking [OF th f(5,6), of "''top_p''" dbg] tp
  have 2: "\<not> has_key body ''top_p''" by (simp add: has_key_def d(2))
  from 1 2 show ?thesis by (rule conjI)
qed

theorem thinking_dropped_without_claude_3_7_witness:
  "completions_body True opus_thinking_request = Inr plain_body
   \<and> get_or opus_thinking_request ''model'' (JStr ''claude-3-7-sonnet'') = JStr ''claude-3-opus''
   \<and> \<not> contains ''claude-3-7'' ''claude-3-opus''
   \<and> get opus_thinking_request ''thinking'' = JBool True
   \<and> has_key opus_thinking_request ''top_p''
   \<and> \<not> has_key plain_body ''thinking''
   \<and> \<not> has_key plain_body ''top_p''"
proof -
  have run: "completions_body True opus_thinking_request = Inr plain_body" by code_simp
  have m: "get_or opus_thinking_request ''model'' (JStr ''claude-3-7-sonnet'') = JStr ''claude-3-opus''"
    by (simp add: opus_thinking_request_def get_or_def)
  have nc: "\<not> contains ''claude-3-7'' ''claude-3-opus''" by simp
  have a: "get opus_thinking_request ''thinking'' = JBool True"
    by (simp add: opus_thinking_request_def get_def get_or_def)
  have tp: "has_key opus_thinking_request ''top_p''"
    by (simp add: opus_thinking_request_def has_key_def)
  note t = thinking_dropped_without_claude_3_7 [OF disjI1 [OF run] m nc a]
  note t1 = t [THEN conjunct1] and t2 = t [THEN conjunct2]
  show ?thesis using run m nc a tp t1 t2 by - (intro conjI, assumption+)
qed

section \<open>A budget that is no number\<close>

text \<open>
  Lines 226-236: when \<^verbatim>\<open>int(thinking['budget_tokens'])\<close> raises, the validator sets the
  budget to 4000; the later steps leave it there.
\<close>

lemma check_thinking_fallback:
  assumes "map_of p ''thinking'' = Some (JObj t)" "map_of t ''budget_tokens'' = Some v"
    "py_int v = None"
  shows "\<exists>t2. map_of (check_thinking p) ''thinking'' = Some (JObj t2)
           \<and> map_of t2 ''budget_tokens'' = Some (JInt 4000)"
proof -
  define t1 where "t1 = (if \<not> has_key t ''type'' \<or> get t ''type'' \<noteq> JStr ''enabled''
                then set_key t ''type'' (JStr ''enabled'') else t)"
  have b1: "map_of t1 ''budget_tokens'' = Some v" using assms(2) by (simp add: t1_def)
  have hk: "has_key p ''thinking''" using assms(1) by (simp add: has_key_def)
  have g: "get p ''thinking'' = JObj t" using assms(1) by (simp add: get_def get_or_def)
  have hb: "has_key t1 ''budget_tokens''" using b1 by (simp add: has_key_def)
  have gb: "py_int (get t1 ''budget_tokens'') = None"
    using b1 assms(3) by (simp add: get_def get_or_def)
  have "check_thinking p = set_key p ''thinking'' (JObj (set_key t1 ''budget_tokens'' (JInt 4000)))"
    unfolding check_thinking_def Let_def g json.case t1_def [symmetric]
    using hk hb gb by simp
  then show ?thesis by simp
qed

lemma check_max_tokens_py_int:
  "\<exists>m. py_int (get_or (check_max_tokens True vp) ''max_tokens'' (JInt DEFAULT_MAX_TOKENS)) = Some m"
proof (cases "map_of vp ''max_tokens''")
  case None
  then show ?thesis by (simp add: check_max_tokens_def has_key_def get_or_def)
next
  case (Some v)
  show ?thesis
  proof (cases "py_int v")
    case None
    with Some show ?thesis
      by (simp add: check_max_tokens_def has_key_def get_or_def get_def)
  next
    case (Some m)
    with \<open>map_of vp ''max_tokens'' = Some v\<close> show ?thesis
      by (simp add: check_max_tokens_def has_key_def get_or_def get_def)
  qed
qed

lemma validate_fallback:
  assumes "map_of p ''thinking'' = Some (JObj t)" "map_of t ''budget_tokens'' = Some v"
    "py_int v = None"
  shows "budget_tokens (validate_bedrock_request p) = Some 4000"
proof -
  define vp2 where "vp2 = check_max_tokens True (check_thinking p)"
  from check_thinking_fallback [OF assms] obtain t2 where
    t2: "map_of (check_thinking p) ''thinking'' = Some (JObj t2)"
        "map_of t2 ''budget_tokens'' = Some (JInt 4000)" by blast
  have th: "map_of vp2 ''thinking'' = Some (JObj t2)"
    using t2(1) by (simp add: vp2_def check_max_tokens_other)
  have hk: "has_key p ''thinking''" using assms(1) by (simp add: has_key_def)
  have v: "validate_bedrock_request p = check_budget vp2"
    unfolding validate_bedrock_request_def Let_def
    using hk th unfolding vp2_def by (simp add: auto_add_thinking_skip)
  from check_max_tokens_py_int [of "check_thinking p"] obtain m where
    m: "py_int (get_or vp2 ''max_tokens'' (JInt DEFAULT_MAX_TOKENS)) = Some m"
    unfolding vp2_def by blast
  from check_budget_exact(1) [OF th t2(2) m] t2(2)
  show ?thesis by (simp add: v budget_tokens_def)
qed

text \<open>
  Claim C6 does not hold of the code. The handlers take a convenience field as it is:
  \<^verbatim>\<open>thinking_budget = req.get('max_thinking_tokens')\<close> is not coerced, and for the
  value \<^verbatim>\<open>"abc"\<close> the next statement, \<^verbatim>\<open>max(1024, thinking_budget)\<close>, raises
  \<^verbatim>\<open>TypeError\<close>; the handler answers with a 500 and the backend is not called. This is
  so for each of the three fields, on both endpoints, with debug mode on or off. The
  validator guards the same coercion with \<^verbatim>\<open>try\<close>/\<^verbatim>\<open>except\<close> and falls back to 4000. A
  budget that is no number inside the thinking object of a request does not raise: the
  handlers do not read it, and the request goes out with the handler's own budget.
\<close>

theorem uncoercible_convenience_field:
  "py_int (JStr ''abc'') = None
   \<and> completions_body False (uncoercible_field_request ''max_thinking_tokens'')
       = Inl (Http500 TypeError)
   \<and> completions_body False (uncoercible_field_request ''thinking_max_tokens'')
       = Inl (Http500 TypeError)
   \<and> completions_body False (uncoercible_field_request ''max_thinking_length'')
       = Inl (Http500 TypeError)
   \<and> completions_body True (uncoercible_field_request ''max_thinking_tokens'')
       = Inl (Http500 TypeError)
   \<and> chat_completions_body False uncoercible_chat_request = Inl (Http500 TypeError)
   \<and> completions False length (\<lambda>v. []) example_backend (\<lambda>k. 0)
         (uncoercible_field_request ''max_thinking_tokens'')
       = \<lparr> response = Error500 TypeError, backend_calls = 0 \<rparr>
   \<and> budget_tokens (validate_bedrock_request uncoercible_body) = Some 4000
   \<and> completions_body False uncoercible_request = Inr (thinking_body 10000 5000)"
proof -
  have "py_int (JStr ''abc'') = None" by code_simp
  moreover have "completions_body False (uncoercible_field_request ''max_thinking_tokens'')
       = Inl (Http500 TypeError)" by code_simp
  moreover have "completions_body False (uncoercible_field_request ''thinking_max_tokens'')
       = Inl (Http500 TypeError)" by code_simp
  moreover have "completions_body False (uncoercible_field_request ''max_thinking_length'')
       = Inl (Http500 TypeError)" by code_simp
  moreover have "completions_body True (uncoercible_field_request ''max_thinking_tokens'')
       = Inl (Http500 TypeError)" by code_simp
  moreover have "chat_completions_body False uncoercible_chat_request = Inl (Http500 TypeError)"
    by code_simp
  moreover have "completions False length (\<lambda>v. []) example_backend (\<lambda>k. 0)
         (uncoercible_field_request ''max_thinking_tokens'')
       = \<lparr> response = Error500 TypeError, backend_calls = 0 \<rparr>" by code_simp
  moreover have "budget_tokens (validate_bedrock_request uncoercible_body) = Some 4000"
  proof -
    have th: "map_of uncoercible_body ''thinking'' = Some (JObj [(''budget_tokens'', JStr ''abc'')])"
      by (simp add: uncoercible_body_def)
    have bt: "map_of [(''budget_tokens'', JStr ''abc'')] ''budget_tokens'' = Some (JStr ''abc'')"
      by simp
    have un: "py_int (JStr ''abc'') = None" by code_simp
    show ?thesis by (rule validate_fallback [OF th bt un])
  qed
  moreover have "completions_body False uncoercible_request = Inr (thinking_body 10000 5000)"
    by code_simp
  ultimately show ?thesis by - (intro conjI, assumption+)
qed

section \<open>Validation errors\<close>

lemma filter_messages_kept:
  "filter_messages n i msgs = Inr kept \<Longrightarrow>
   kept = map snd (filter (\<lambda>(i, msg). has_content (message_content msg) = Inr True
                               \<or> (Suc i = n \<and> is_assistant msg))
                (enumerate i msgs))"
proof (induction msgs arbitrary: i kept)
  case Nil
  then show ?case by simp
next
  case (Cons m msgs)
  from Cons.prems obtain msg where m: "m = JObj msg" by (cases m) simp_all
  from Cons.prems m obtain hc where hc: "has_content (get_or msg ''content'' (JStr [])) = Inr hc"
    by (cases "has_content (get_or msg ''content'' (JStr []))") simp_all
  from Cons.prems m hc obtain rest where rest: "filter_messages n (Suc i) msgs = Inr rest"
    by (cases "filter_messages n (Suc i) msgs") simp_all
  from Cons.prems m hc rest have k: "kept = (if hc \<or> (Suc i = n \<and> get msg ''role'' = JStr ''assistant'')
                    then JObj msg # rest else rest)" by simp
  from Cons.IH [OF rest] k m hc show ?case
    by (simp add: is_assistant_def)
qed

lemma completions_empty_prompt:
  assumes "\<not> truthy (get req ''prompt'') \<or> (\<exists>s. get req ''prompt'' = JStr s \<and> \<not> strip_nonempty s)"
  shows "completions dbg tok ps be jitter req =
           \<lparr> response = Error400 ''Prompt cannot be empty'', backend_calls = 0 \<rparr>"
proof -
  have "completions_params dbg req = Inl (Http400 ''Prompt cannot be empty'')"
    using assms unfolding completions_params_def Let_def by auto
  then show ?thesis by (simp add: completions_def early_response_def)
qed

lemma chat_no_user_message:
  assumes "resolve_model (get_or req ''model'' (JStr ''claude-3-7-sonnet'')) = Inr mid"
    and "as_number (get_or req ''max_tokens'' (JInt DEFAULT_MAX_TOKENS)) = Some n"
    and "message_list (get_or (log_request_info dbg req) ''messages'' (JList [])) = Inr msgs"
    and "filter_messages (length msgs) 0 msgs = Inr kept"
    and "\<forall>m \<in> set kept. \<not> is_user m"
  shows "chat_completions dbg tok ps be jitter req =
           \<lparr> response = Error400 ''At least one user message with content is required'',
              backend_calls = 0 \<rparr>"
proof -
  have "chat_completions_params dbg req =
          Inl (Http400 ''At least one user message with content is required'')"
    using assms unfolding chat_completions_params_def Let_def by auto
  then show ?thesis by (simp add: chat_completions_def early_response_def)
qed

text \<open>
  Claim C8 does not hold of the code when debug mode is on. \<^verbatim>\<open>log_request_info\<close>
  shortens a message content of more than 200 characters in what it takes for a copy of
  the request; the copy is shallow, so the handler afterwards reads the shortened
  content with the marker appended. A user message of 201 blanks has become 200 blanks
  and the marker, which \<^verbatim>\<open>strip()\<close> does not empty: the message is kept, the check for
  a user message passes, and the backend is called with it. With debug mode off the
  same request is answered with 400 and the backend is not called.
\<close>

theorem debug_log_defeats_validation:
  "\<not> strip_nonempty (replicate 201 CHR '' '')
   \<and> chat_completions False length (\<lambda>v. []) example_backend (\<lambda>k. 0) long_blank_request
       = \<lparr> response = Error400 ''At least one user message with content is required'',
            backend_calls = 0 \<rparr>
   \<and> backend_calls
         (chat_completions True length (\<lambda>v. []) example_backend (\<lambda>k. 0) long_blank_request) = 1
   \<and> chat_completions_body True long_blank_request
       = Inr [(''anthropic_version'', JStr ''bedrock-2023-05-31''),
              (''max_tokens'', JInt 4096),
              (''temperature'', JInt 1),
              (''messages'',
                 JList [JObj [(''role'', JStr ''user''),
                              (''content'', JStr (replicate 200 CHR '' '' @ truncation_mark))]]),
              (''top_p'', JInt 1)]"
proof -
  have "\<not> strip_nonempty (replicate 201 CHR '' '')" by code_simp
  moreover have "chat_completions False length (\<lambda>v. []) example_backend (\<lambda>k. 0) long_blank_request
       = \<lparr> response = Error400 ''At least one user message with content is required'',
            backend_calls = 0 \<rparr>" by code_simp
  moreover have "backend_calls
         (chat_completions True length (\<lambda>v. []) example_backend (\<lambda>k. 0) long_blank_request) = 1"
    by code_simp
  moreover have "chat_completions_body True long_blank_request
       = Inr [(''anthropic_version'', JStr ''bedrock-2023-05-31''),
              (''max_tokens'', JInt 4096),
              (''temperature'', JInt 1),
              (''messages'',
                 JList [JObj [(''role'', JStr ''user''),
                              (''content'', JStr (replicate 200 CHR '' '' @ truncation_mark))]]),
              (''top_p'', JInt 1)]" by code_simp
  ultimately show ?thesis by - (intro conjI, assumption+)
qed

section \<open>The retry loop\<close>

text \<open>
  From any retry count within the limit the loop stops at some attempt \<open>n\<close>: every
  attempt before it was throttled and followed by one sleep, and the answer is that of
  attempt \<open>n\<close>, which is throttled only when the retries are used up.
\<close>

lemma retry_loop_spec:
  "retries \<le> MAX_RETRIES \<Longrightarrow>
   \<exists>n. retries \<le> n \<and> n \<le> MAX_RETRIES
     \<and> attempts (retry_loop func jitter retries slept) = Suc n
     \<and> sleeps (retry_loop func jitter retries slept) = slept @ map (delay jitter) [retries..<n]
     \<and> (\<forall>k. retries \<le> k \<and> k < n \<longrightarrow> is_throttling (func k))
     \<and> result (retry_loop func jitter retries slept) = final_result (func n)
     \<and> (is_throttling (func n) \<longrightarrow> n = MAX_RETRIES)"
proof (induction func jitter retries slept rule: retry_loop.induct)
  case (1 func jitter retries slept)
  show ?case
  proof (cases "func retries")
    case (Success r)
    then show ?thesis using "1.prems"
      by (intro exI[of _ retries]) (auto simp add: retry_loop.simps)
  next
    case (OtherErr m)
    then show ?thesis using "1.prems"
      by (intro exI[of _ retries]) (auto simp add: retry_loop.simps)
  next
    case (ClientErr code msg)
    show ?thesis
    proof (cases "code = ''ThrottlingException'' \<and> retries < MAX_RETRIES")
      case False
      then show ?thesis using "1.prems" ClientErr
        by (intro exI[of _ retries]) (auto simp add: retry_loop.simps)
    next
      case True
      then have le: "Suc retries \<le> MAX_RETRIES" by simp
      from "1.IH"[OF "1.prems" ClientErr True le]
      obtain n where n: "Suc retries \<le> n" "n \<le> MAX_RETRIES"
        "attempts (retry_loop func jitter (Suc retries) (slept @ [delay jitter retries])) = Suc n"
        "sleeps (retry_loop func jitter (Suc retries) (slept @ [delay jitter retries]))
           = (slept @ [delay jitter retries]) @ map (delay jitter) [Suc retries..<n]"
        "\<forall>k. Suc retries \<le> k \<and> k < n \<longrightarrow> is_throttling (func k)"
        "result (retry_loop func jitter (Suc retries) (slept @ [delay jitter retries]))
           = final_result (func n)"
        "is_throttling (func n) \<longrightarrow> n = MAX_RETRIES"
        by blast
      have unfold: "retry_loop func jitter retries slept
            = retry_loop func jitter (Suc retries) (slept @ [delay jitter retries])"
        using True ClientErr "1.prems" by (subst retry_loop.simps) simp
      have upt: "[retries..<n] = retries # [Suc retries..<n]"
        using n(1) by (simp add: upt_conv_Cons)
      have thr: "\<forall>k. retries \<le> k \<and> k < n \<longrightarrow> is_throttling (func k)"
      proof (intro allI impI)
        fix k assume "retries \<le> k \<and> k < n"
        then consider "k = retries" | "Suc retries \<le> k \<and> k < n" by force
        then show "is_throttling (func k)"
          using n(5) True ClientErr by cases simp_all
      qed
      show ?thesis
        apply (rule exI[of _ n])
        using n thr by (simp add: unfold upt)
    qed
  qed
qed

text \<open>
  Rounding to the nearest integer, ties to even, stays between the integers around its
  argument and within a half of it; so the float sum of a power of two \<open>2 ^ k\<close> and a
  jitter in \<open>[0, 1)\<close> lies in \<open>[2 ^ k, 2 ^ k + 1]\<close>, both ends included, within
  half a unit in the last place of the exact sum.
\<close>

lemma round_half_even_int [simp]: "round_half_even (of_int n) = n"
  by (simp add: round_half_even_def)

lemma round_half_even_floor:
  "\<lfloor>x\<rfloor> \<le> round_half_even x" "round_half_even x \<le> \<lfloor>x\<rfloor> + 1"
  by (simp_all add: round_half_even_def Let_def)

lemma round_half_even_ge:
  assumes "of_int n \<le> x" shows "n \<le> round_half_even x"
proof -
  from assms have "n \<le> \<lfloor>x\<rfloor>" by (simp add: le_floor_iff)
  with round_half_even_floor(1) [of x] show ?thesis by simp
qed

lemma round_half_even_le:
  assumes "x \<le> of_int n" shows "round_half_even x \<le> n"
proof (cases "x = of_int n")
  case True
  then show ?thesis by simp
next
  case False
  with assms have "x < of_int n" by simp
  then have "\<lfloor>x\<rfloor> < n" by (simp add: floor_less_iff)
  with round_half_even_floor(2) [of x] show ?thesis by simp
qed

lemma round_half_even_close: "\<bar>of_int (round_half_even x) - x\<bar> \<le> 1 / 2"
proof -
  have "of_int \<lfloor>x\<rfloor> \<le> x" "x < of_int \<lfloor>x\<rfloor> + 1" by linarith+
  then show ?thesis
    by (auto simp add: round_half_even_def Let_def abs_le_iff)
qed

lemma round_half_even_tie_odd:
  assumes "x = of_int f + 1 / 2" "odd f"
  shows "round_half_even x = f + 1"
proof -
  have "\<lfloor>x\<rfloor> = f" unfolding assms(1) by (simp add: floor_unique)
  then show ?thesis using assms by (simp add: round_half_even_def Let_def)
qed

lemma float_add_exact:
  assumes "0 < p" "(p + u) * 2 ^ 52 / p = of_int n"
  shows "float_add p u = p + u"
proof -
  have "float_add p u = ((p + u) * 2 ^ 52 / p) * p / 2 ^ 52"
    unfolding float_add_def assms(2) by simp
  also have "\<dots> = p + u" using assms(1) by simp
  finally show ?thesis .
qed

lemma float_add_close:
  assumes "0 < p"
  shows "\<bar>float_add p u - (p + u)\<bar> \<le> p / 2 ^ 53"
proof -
  define x where "x = (p + u) * 2 ^ 52 / p"
  have e: "p + u = x * p / 2 ^ 52" using assms by (simp add: x_def)
  have fa: "float_add p u = of_int (round_half_even x) * p / 2 ^ 52"
    by (simp add: float_add_def x_def)
  have d: "float_add p u - (p + u) = (of_int (round_half_even x) - x) * (p / 2 ^ 52)"
    unfolding fa e by (simp add: algebra_simps)
  have pos: "0 \<le> p / 2 ^ 52" using assms by simp
  have "\<bar>float_add p u - (p + u)\<bar> = \<bar>of_int (round_half_even x) - x\<bar> * (p / 2 ^ 52)"
    unfolding d abs_mult using pos by (simp only: abs_of_nonneg)
  also have "\<dots> \<le> (1 / 2) * (p / 2 ^ 52)"
    using assms by (intro mult_right_mono round_half_even_close) simp
  also have "\<dots> = p / 2 ^ 53" by simp
  finally show ?thesis .
qed

lemma float_add_range:
  assumes "k \<le> 52" "0 \<le> u" "u < 1"
  shows "2 ^ k \<le> float_add (2 ^ k) u" "float_add (2 ^ k) u \<le> 2 ^ k + 1"
proof -
  define s :: int where "s = 2 ^ (52 - k)"
  define x :: real where "x = (2 ^ k + u) * 2 ^ 52 / 2 ^ k"
  have sk: "(2::real) ^ 52 = of_int s * 2 ^ k"
    using assms(1) by (simp add: s_def power_add [symmetric])
  have x: "x = 2 ^ 52 + u * of_int s"
    unfolding x_def sk by (simp add: field_simps)
  have s0: "0 < s" by (simp add: s_def)
  have lo: "of_int (2 ^ 52) \<le> x" using assms(2) s0 by (simp add: x)
  have "u * of_int s \<le> of_int s" using assms(3) s0 by simp
  then have hi: "x \<le> of_int (2 ^ 52 + s)" by (simp add: x)
  from round_half_even_ge [OF lo] have r1: "2 ^ 52 \<le> round_half_even x" .
  from round_half_even_le [OF hi] have r2: "round_half_even x \<le> 2 ^ 52 + s" .
  have fa: "float_add (2 ^ k) u = of_int (round_half_even x) * 2 ^ k / 2 ^ 52"
    by (simp add: float_add_def x_def)
  have f: "float_add (2 ^ k) u = of_int (round_half_even x) / of_int s"
    unfolding fa sk using s0 by simp
  have p: "(2::real) ^ k = 2 ^ 52 / of_int s" unfolding sk using s0 by simp
  from r1 have "(of_int (2 ^ 52) :: real) \<le> of_int (round_half_even x)"
    by (simp only: of_int_le_iff)
  then have "(2::real) ^ 52 \<le> of_int (round_half_even x)" by simp
  then have g1: "(2::real) ^ 52 / of_int s \<le> of_int (round_half_even x) / of_int s"
    using s0 by (intro divide_right_mono) simp_all
  show "2 ^ k \<le> float_add (2 ^ k) u"
    by (subst f, subst p) (rule g1)
  from r2 have "(of_int (round_half_even x) :: real) \<le> of_int (2 ^ 52 + s)"
    by (simp only: of_int_le_iff)
  then have "(of_int (round_half_even x) :: real) \<le> 2 ^ 52 + of_int s" by simp
  then have "(of_int (round_half_even x) :: real) / of_int s \<le> (2 ^ 52 + of_int s) / of_int s"
    using s0 by (intro divide_right_mono) simp_all
  also have "\<dots> = 2 ^ 52 / of_int s + 1" using s0 by (simp add: add_divide_distrib)
  finally have g2: "(of_int (round_half_even x) :: real) / of_int s \<le> 2 ^ 52 / of_int s + 1" .
  show "float_add (2 ^ k) u \<le> 2 ^ k + 1"
    by (subst f, subst p) (rule g2)
qed

lemma float_add_tie: "float_add 1 (1 - 1 / 2 ^ 53) = 2"
proof -
  have x: "(1 + (1 - 1 / 2 ^ 53)) * 2 ^ 52 / 1 = real_of_int 9007199254740991 + 1 / 2"
    by simp
  have "round_half_even ((1 + (1 - 1 / 2 ^ 53)) * 2 ^ 52 / 1) = 9007199254740991 + 1"
    by (rule round_half_even_tie_odd [OF x]) simp
  then show ?thesis by (simp add: float_add_def)
qed

lemma float_add_half: "float_add 1 (1 / 2) = 3 / 2" "float_add 2 (1 / 2) = 5 / 2"
proof -
  show "float_add 1 (1 / 2) = 3 / 2"
    using float_add_exact [of 1 "1 / 2" 6755399441055744] by simp
  show "float_add 2 (1 / 2) = 5 / 2"
    using float_add_exact [of 2 "1 / 2" 5629499534213120] by simp
qed

lemma delay_range:
  assumes "0 \<le> jitter k" "jitter k < 1" "k < MAX_RETRIES"
  shows "delay jitter k = min 30 (float_add (2 ^ k) (jitter k))"
    and "2 ^ k \<le> delay jitter k" and "delay jitter k \<le> 2 ^ k + 1"
    and "\<bar>delay jitter k - (2 ^ k + jitter k)\<bar> \<le> 2 ^ k / 2 ^ 53"
proof -
  have k4: "k \<le> 4" using assms(3) by (simp add: MAX_RETRIES_def)
  then have k52: "k \<le> 52" by simp
  have p16: "(2::real) ^ k \<le> 2 ^ 4" using k4 by (intro power_increasing) simp_all
  note fr = float_add_range [OF k52 assms(1,2)]
  have "float_add (2 ^ k) (jitter k) \<le> 30" using fr(2) p16 by simp
  then have d: "delay jitter k = float_add (2 ^ k) (jitter k)"
    by (simp add: delay_def MAX_DELAY_def BASE_DELAY_def)
  show "delay jitter k = min 30 (float_add (2 ^ k) (jitter k))"
    by (simp add: delay_def MAX_DELAY_def BASE_DELAY_def)
  show "2 ^ k \<le> delay jitter k" unfolding d by (rule fr(1))
  show "delay jitter k \<le> 2 ^ k + 1" unfolding d by (rule fr(2))
  show "\<bar>delay jitter k - (2 ^ k + jitter k)\<bar> \<le> 2 ^ k / 2 ^ 53"
    unfolding d by (rule float_add_close) simp
qed

lemma retry_loop_throttled:
  "retries < MAX_RETRIES \<Longrightarrow> func retries = ClientErr ''ThrottlingException'' msg \<Longrightarrow>
   retry_loop func jitter retries slept
     = retry_loop func jitter (Suc retries) (slept @ [delay jitter retries])"
  by (subst retry_loop.simps) simp

lemma retry_loop_success:
  "retries \<le> MAX_RETRIES \<Longrightarrow> func retries = Success r \<Longrightarrow>
   retry_loop func jitter retries slept
     = \<lparr> attempts = Suc retries, sleeps = slept, result = Returned r \<rparr>"
  by (subst retry_loop.simps) simp

lemma retry_loop_exhausted:
  "func MAX_RETRIES = ClientErr code msg \<Longrightarrow>
   retry_loop func jitter MAX_RETRIES slept
     = \<lparr> attempts = Suc MAX_RETRIES, sleeps = slept, result = Raised (ClientError code msg) \<rparr>"
  by (subst retry_loop.simps) simp

lemma throttle_twice_run: "retry_loop (throttle_twice DEFAULT_MODEL_ID []) jitter 0 []
   = \<lparr> attempts = 3, sleeps = [delay jitter 0, delay jitter (Suc 0)],
       result = Returned (JObj []) \<rparr>"
proof -
  let ?f = "throttle_twice DEFAULT_MODEL_ID []"
  have "retry_loop ?f jitter 0 []
      = retry_loop ?f jitter (Suc 0) ([] @ [delay jitter 0])"
    by (rule retry_loop_throttled [where msg = "''Too many requests''"])
       (simp_all add: throttle_twice_def MAX_RETRIES_def)
  also have "\<dots> = retry_loop ?f jitter (Suc (Suc 0))
        (([] @ [delay jitter 0]) @ [delay jitter (Suc 0)])"
    by (rule retry_loop_throttled [where msg = "''Too many requests''"])
       (simp_all add: throttle_twice_def MAX_RETRIES_def)
  also have "\<dots> = \<lparr> attempts = Suc (Suc (Suc 0)),
        sleeps = ([] @ [delay jitter 0]) @ [delay jitter (Suc 0)],
        result = Returned (JObj []) \<rparr>"
    by (rule retry_loop_success) (simp_all add: throttle_twice_def MAX_RETRIES_def)
  finally show ?thesis by simp
qed

lemma delay_half: "delay (\<lambda>k. 1 / 2) 0 = 3 / 2" "delay (\<lambda>k. 1 / 2) (Suc 0) = 5 / 2"
  by (simp_all add: delay_def MAX_DELAY_def BASE_DELAY_def float_add_half)

lemma delay_tie: "delay (\<lambda>k. 1 - 1 / 2 ^ 53) 0 = 2"
proof -
  have "delay (\<lambda>k. 1 - 1 / 2 ^ 53) 0 = min 30 (float_add 1 (1 - 1 / 2 ^ 53))"
    by (simp only: delay_def MAX_DELAY_def BASE_DELAY_def power_0 mult_1)
  also have "\<dots> = min 30 2" by (simp only: float_add_tie)
  also have "\<dots> = (2::real)" by simp
  finally show ?thesis .
qed

text \<open>
  Claim C3, as the code has it. \<^verbatim>\<open>MAX_RETRIES = 5\<close> counts retries: the loop makes at
  most 6 attempts, the first and up to 5 retries. Only attempts that failed with the
  throttling code are retried; before retry \<open>k\<close> (counted from 0) the loop sleeps
  \<open>min 30 (2 ^ k + jitter k)\<close> seconds, the sum being a float sum, which lies in
  \<open>[2 ^ k, 2 ^ k + 1]\<close> (the upper end is reached when the sum rounds up) and within
  \<open>2 ^ k / 2 ^ 53\<close> of the exact sum; the outcome of the last attempt is returned or
  raised as it is, and the last attempt is a throttling error only when all 5 retries
  are used up. A backend that throttles the first two attempts and answers the third
  gives 3 attempts and 2 sleeps.
\<close>

theorem invoke_with_retry_bounded:
  assumes jit: "\<forall>k. 0 \<le> jitter k \<and> jitter k < 1"
  shows "\<exists>n. n \<le> 5
     \<and> attempts (invoke_with_retry dbg func jitter mid body) = n + 1
     \<and> length (sleeps (invoke_with_retry dbg func jitter mid body)) = n
     \<and> (\<forall>k<n. is_throttling (func mid (prepare_body dbg mid body) k)
            \<and> sleeps (invoke_with_retry dbg func jitter mid body) ! k
                = min 30 (float_add (2 ^ k) (jitter k))
            \<and> 2 ^ k \<le> sleeps (invoke_with_retry dbg func jitter mid body) ! k
            \<and> sleeps (invoke_with_retry dbg func jitter mid body) ! k \<le> 2 ^ k + 1
            \<and> \<bar>sleeps (invoke_with_retry dbg func jitter mid body) ! k - (2 ^ k + jitter k)\<bar>
                 \<le> 2 ^ k / 2 ^ 53)
     \<and> result (invoke_with_retry dbg func jitter mid body)
          = final_result (func mid (prepare_body dbg mid body) n)
     \<and> (is_throttling (func mid (prepare_body dbg mid body) n) \<longrightarrow> n = 5)
     \<and> (is_throttling (func mid (prepare_body dbg mid body) 0)
          \<and> is_throttling (func mid (prepare_body dbg mid body) 1)
          \<and> \<not> is_throttling (func mid (prepare_body dbg mid body) 2) \<longrightarrow> n = 2)"
proof -
  define f where "f = func mid (prepare_body dbg mid body)"
  define r where "r = invoke_with_retry dbg func jitter mid body"
  have r: "r = retry_loop f jitter 0 []"
    by (simp add: r_def f_def invoke_with_retry_def)
  from retry_loop_spec[of 0 f jitter "[]"]
  obtain n where n: "n \<le> MAX_RETRIES" "attempts r = Suc n"
    "sleeps r = map (delay jitter) [0..<n]"
    "\<forall>k. k < n \<longrightarrow> is_throttling (f k)"
    "result r = final_result (f n)" "is_throttling (f n) \<longrightarrow> n = MAX_RETRIES"
    unfolding r by auto
  have n5: "n \<le> 5" using n(1) by (simp add: MAX_RETRIES_def)
  have sl: "\<forall>k<n. is_throttling (f k)
              \<and> sleeps r ! k = min 30 (float_add (2 ^ k) (jitter k))
              \<and> 2 ^ k \<le> sleeps r ! k \<and> sleeps r ! k \<le> 2 ^ k + 1
              \<and> \<bar>sleeps r ! k - (2 ^ k + jitter k)\<bar> \<le> 2 ^ k / 2 ^ 53"
  proof (intro allI impI)
    fix k assume k: "k < n"
    then have km: "k < MAX_RETRIES" using n(1) by simp
    have nth: "sleeps r ! k = delay jitter k" using k by (simp add: n(3))
    have j: "0 \<le> jitter k" "jitter k < 1" using jit by simp_all
    have t: "is_throttling (f k)" using n(4) k by simp
    note dr = delay_range [of jitter k, OF j km]
    show "is_throttling (f k)
              \<and> sleeps r ! k = min 30 (float_add (2 ^ k) (jitter k))
              \<and> 2 ^ k \<le> sleeps r ! k \<and> sleeps r ! k \<le> 2 ^ k + 1
              \<and> \<bar>sleeps r ! k - (2 ^ k + jitter k)\<bar> \<le> 2 ^ k / 2 ^ 53"
      unfolding nth using t dr by - (intro conjI, assumption+)
  qed
  have ex: "is_throttling (f 0) \<and> is_throttling (f 1) \<and> \<not> is_throttling (f 2) \<longrightarrow> n = 2"
  proof
    assume a: "is_throttling (f 0) \<and> is_throttling (f 1) \<and> \<not> is_throttling (f 2)"
    have "\<not> 2 < n" using a n(4) by auto
    moreover have "n \<noteq> 0"
    proof
      assume "n = 0"
      then have "is_throttling (f n)" using a by simp
      then show False using n(6) \<open>n = 0\<close> by (simp add: MAX_RETRIES_def)
    qed
    moreover have "n \<noteq> 1"
    proof
      assume "n = 1"
      then have "is_throttling (f n)" using a by simp
      then show False using n(6) \<open>n = 1\<close> by (simp add: MAX_RETRIES_def)
    qed
    ultimately show "n = 2" by arith
  qed
  have a1: "attempts r = n + 1" using n(2) by simp
  have a2: "length (sleeps r) = n" by (simp add: n(3))
  have a3: "is_throttling (f n) \<longrightarrow> n = 5" using n(6) by (simp add: MAX_RETRIES_def)
  show ?thesis
    unfolding r_def [symmetric] f_def [symmetric]
    using n5 a1 a2 sl n(5) a3 ex
    by - (rule exI [of _ n], intro conjI, assumption+)
qed

theorem invoke_with_retry_bounded_witness:
  "(\<forall>k::nat. (0::real) \<le> 1 / 2 \<and> (1::real) / 2 < 1)
   \<and> attempts (invoke_with_retry False throttle_twice (\<lambda>k. 1 / 2) DEFAULT_MODEL_ID []) = 3
   \<and> sleeps (invoke_with_retry False throttle_twice (\<lambda>k. 1 / 2) DEFAULT_MODEL_ID [])
       = [3 / 2, 5 / 2]
   \<and> result (invoke_with_retry False throttle_twice (\<lambda>k. 1 / 2) DEFAULT_MODEL_ID [])
       = Returned (JObj [])"
proof -
  let ?r = "invoke_with_retry False throttle_twice (\<lambda>k. 1 / 2) DEFAULT_MODEL_ID []"
  let ?f = "throttle_twice DEFAULT_MODEL_ID (prepare_body False DEFAULT_MODEL_ID [])"
  have jit: "\<forall>k::nat. (0::real) \<le> 1 / 2 \<and> (1::real) / 2 < 1" by simp
  have thr: "is_throttling (?f 0) \<and> is_throttling (?f 1) \<and> \<not> is_throttling (?f 2)"
    by (simp add: throttle_twice_def)
  from invoke_with_retry_bounded [of "\<lambda>k. 1 / 2" False throttle_twice DEFAULT_MODEL_ID "[]", OF jit]
  obtain n where n: "attempts ?r = n + 1"
    and ex: "is_throttling (?f 0) \<and> is_throttling (?f 1) \<and> \<not> is_throttling (?f 2) \<longrightarrow> n = 2"
    by (elim exE conjE)
  from ex thr have "n = 2" by (rule mp)
  with n have att: "attempts ?r = 3" by simp
  have run: "?r = \<lparr> attempts = 3, sleeps = [3 / 2, 5 / 2], result = Returned (JObj []) \<rparr>"
    by (simp add: invoke_with_retry_def prepare_body_def throttle_twice_run delay_half)
  show ?thesis using jit att by (simp add: run)
qed

text \<open>
  The claim's bound of 5 attempts in total fails: a backend that throttles every
  attempt is called 6 times, with 5 sleeps between the calls. The half-open range of
  a sleep fails as well: for the jitter \<open>1 - 2 ^ -53\<close>, the largest float below 1, the
  float sum \<open>1 + jitter\<close> is a tie that rounds up to 2, so the first sleep is
  \<open>2 ^ 0 + 1\<close> seconds.
\<close>

theorem retry_attempts_counterexample:
  "attempts (invoke_with_retry False always_throttle (\<lambda>k. 0) DEFAULT_MODEL_ID []) = 6
   \<and> \<not> attempts (invoke_with_retry False always_throttle (\<lambda>k. 0) DEFAULT_MODEL_ID []) \<le> 5
   \<and> length (sleeps (invoke_with_retry False always_throttle (\<lambda>k. 0) DEFAULT_MODEL_ID [])) = 5
   \<and> (0::real) \<le> 1 - 1 / 2 ^ 53 \<and> (1::real) - 1 / 2 ^ 53 < 1
   \<and> sleeps (invoke_with_retry False throttle_twice (\<lambda>k. 1 - 1 / 2 ^ 53)
         DEFAULT_MODEL_ID []) ! 0 = 2
   \<and> \<not> (2::real) < 2 ^ 0 + 1"
proof -
  let ?f = "always_throttle DEFAULT_MODEL_ID []"
  have step: "retry_loop ?f (\<lambda>k. 0) k slept
      = retry_loop ?f (\<lambda>k. 0) (Suc k) (slept @ [delay (\<lambda>k. 0) k])" if "k < 5" for k slept
    using that
    by (intro retry_loop_throttled [where msg = "''Too many requests''"])
       (simp_all add: always_throttle_def MAX_RETRIES_def)
  have last: "retry_loop ?f (\<lambda>k. 0) 5 slept
      = \<lparr> attempts = 6, sleeps = slept,
          result = Raised (ClientError ''ThrottlingException'' ''Too many requests'') \<rparr>" for slept
    using retry_loop_exhausted [of ?f "''ThrottlingException''" "''Too many requests''" "\<lambda>k. 0" slept]
    by (simp add: always_throttle_def MAX_RETRIES_def)
  have "retry_loop ?f (\<lambda>k. 0) 0 [] = retry_loop ?f (\<lambda>k. 0) (Suc 0) ([] @ [delay (\<lambda>k. 0) 0])"
    by (rule step) simp
  also have "\<dots> = retry_loop ?f (\<lambda>k. 0) (Suc (Suc 0))
      (([] @ [delay (\<lambda>k. 0) 0]) @ [delay (\<lambda>k. 0) (Suc 0)])"
    by (rule step) simp
  also have "\<dots> = retry_loop ?f (\<lambda>k. 0) (Suc (Suc (Suc 0)))
      ((([] @ [delay (\<lambda>k. 0) 0]) @ [delay (\<lambda>k. 0) (Suc 0)]) @ [delay (\<lambda>k. 0) (Suc (Suc 0))])"
    by (rule step) simp
  also have "\<dots> = retry_loop ?f (\<lambda>k. 0) (Suc (Suc (Suc (Suc 0))))
      (((([] @ [delay (\<lambda>k. 0) 0]) @ [delay (\<lambda>k. 0) (Suc 0)]) @ [delay (\<lambda>k. 0) (Suc (Suc 0))])
         @ [delay (\<lambda>k. 0) (Suc (Suc (Suc 0)))])"
    by (rule step) simp
  also have "\<dots> = retry_loop ?f (\<lambda>k. 0) (Suc (Suc (Suc (Suc (Suc 0)))))
      ((((([] @ [delay (\<lambda>k. 0) 0]) @ [delay (\<lambda>k. 0) (Suc 0)]) @ [delay (\<lambda>k. 0) (Suc (Suc 0))])
         @ [delay (\<lambda>k. 0) (Suc (Suc (Suc 0)))]) @ [delay (\<lambda>k. 0) (Suc (Suc (Suc (Suc 0))))])"
    by (rule step) simp
  finally have "attempts (retry_loop ?f (\<lambda>k. 0) 0 []) = 6
      \<and> length (sleeps (retry_loop ?f (\<lambda>k. 0) 0 [])) = 5"
    using last by (simp add: eval_nat_numeral)
  then have a: "attempts (invoke_with_retry False always_throttle (\<lambda>k. 0) DEFAULT_MODEL_ID []) = 6
   \<and> \<not> attempts (invoke_with_retry False always_throttle (\<lambda>k. 0) DEFAULT_MODEL_ID []) \<le> 5
   \<and> length (sleeps (invoke_with_retry False always_throttle (\<lambda>k. 0) DEFAULT_MODEL_ID [])) = 5"
    by (simp add: invoke_with_retry_def prepare_body_def)
  have b: "(0::real) \<le> 1 - 1 / 2 ^ 53 \<and> (1::real) - 1 / 2 ^ 53 < 1" by simp
  have "sleeps (invoke_with_retry False throttle_twice jitter DEFAULT_MODEL_ID []) ! 0
          = delay jitter 0" for jitter
    by (simp add: invoke_with_retry_def prepare_body_def throttle_twice_run)
  then have c: "sleeps (invoke_with_retry False throttle_twice (\<lambda>k. 1 - 1 / 2 ^ 53)
         DEFAULT_MODEL_ID []) ! 0 = 2"
    by (simp only: delay_tie)
  have d: "\<not> (2::real) < 2 ^ 0 + 1" by simp
  note a1 = a [THEN conjunct1] and a2 = a [THEN conjunct2, THEN conjunct1]
    and a3 = a [THEN conjunct2, THEN conjunct2]
    and b1 = b [THEN conjunct1] and b2 = b [THEN conjunct2]
  show ?thesis using a1 a2 a3 b1 b2 c d by - (intro conjI, assumption+)
qed

section \<open>Streaming translation: order and sentinel\<close>

lemma chat_frame_text_delta:
  assumes "text_delta_frame frame text"
  shows "chat_frame name frame = Inr [chat_chunk name (JObj [(''content'', JStr text)]) JNull]"
proof (cases frame)
  case (JObj chunk)
  with assms obtain delta where d: "get_or chunk ''type'' (JStr []) = JStr ''content_block_delta''"
    "get_or chunk ''delta'' (JObj []) = JObj delta" "get delta ''type'' = JStr ''text_delta''"
    "get_or delta ''text'' (JStr []) = JStr text" "text \<noteq> []"
    by (auto simp: text_delta_frame_def split: json.splits)
  then show ?thesis using JObj
    by (simp add: content_block_delta_def)
qed (use assms in \<open>simp_all add: text_delta_frame_def\<close>)

lemma chat_frame_end_turn:
  assumes "message_delta_frame frame (JStr ''end_turn'')"
  shows "chat_frame name frame = Inr [chat_chunk name (JObj []) (JStr ''stop''), Done]"
proof (cases frame)
  case (JObj chunk)
  with assms obtain delta where d: "get_or chunk ''type'' (JStr []) = JStr ''message_delta''"
    "get_or chunk ''delta'' (JObj []) = JObj delta" "get delta ''stop_reason'' = JStr ''end_turn''"
    by (auto simp: message_delta_frame_def split: json.splits)
  then show ?thesis using JObj
    by (simp add: message_delta_def)
qed (use assms in \<open>simp_all add: message_delta_frame_def\<close>)

text \<open>
  Claim C7. On the chat streaming endpoint, \<open>N\<close> \<^verbatim>\<open>content_block_delta\<close> frames with
  non-empty \<^verbatim>\<open>text_delta\<close> texts followed by one \<^verbatim>\<open>message_delta\<close> frame with stop
  reason \<^verbatim>\<open>end_turn\<close> give exactly \<open>N\<close> content chunks in arrival order, each with
  the text of its frame in \<^verbatim>\<open>delta.content\<close> and no finish reason, then one chunk with
  an empty delta and finish reason \<^verbatim>\<open>stop\<close>, then the \<^verbatim>\<open>[DONE]\<close> sentinel, and nothing
  else.
\<close>

theorem chat_stream_text_then_stop:
  assumes "list_all2 text_delta_frame frames texts"
    and "message_delta_frame stop (JStr ''end_turn'')"
  shows "chat_stream name (frames @ [stop]) =
           (map (\<lambda>text.
                   Data (JObj [(''object'', JStr ''chat.completion.chunk''), (''model'', JStr name),
                     (''choices'',
                        JList [JObj [(''index'', JInt 0), (''delta'', JObj [(''content'', JStr text)]),
                                     (''finish_reason'', JNull)]])])) texts
              @ [Data (JObj [(''object'', JStr ''chat.completion.chunk''), (''model'', JStr name),
                     (''choices'',
                        JList [JObj [(''index'', JInt 0), (''delta'', JObj []),
                                     (''finish_reason'', JStr ''stop'')]])]),
                 Done], None)"
  using assms(1)
proof (induction frames texts rule: list_all2_induct)
  case Nil
  show ?case by (simp add: chat_frame_end_turn [OF assms(2)] chat_chunk_def)
next
  case (Cons frame t frames texts)
  then show ?case by (simp add: chat_frame_text_delta chat_chunk_def)
qed

theorem chat_stream_text_then_stop_witness:
  "list_all2 text_delta_frame hello_frames [''Hel'', ''lo'']
   \<and> message_delta_frame end_turn_frame (JStr ''end_turn'')
   \<and> chat_stream ''claude-3-opus'' (hello_frames @ [end_turn_frame]) =
        ([Data (JObj [(''object'', JStr ''chat.completion.chunk''), (''model'', JStr ''claude-3-opus''),
                     (''choices'',
                        JList [JObj [(''index'', JInt 0), (''delta'', JObj [(''content'', JStr ''Hel'')]),
                                     (''finish_reason'', JNull)]])]),
          Data (JObj [(''object'', JStr ''chat.completion.chunk''), (''model'', JStr ''claude-3-opus''),
                     (''choices'',
                        JList [JObj [(''index'', JInt 0), (''delta'', JObj [(''content'', JStr ''lo'')]),
                                     (''finish_reason'', JNull)]])]),
          Data (JObj [(''object'', JStr ''chat.completion.chunk''), (''model'', JStr ''claude-3-opus''),
                     (''choices'',
                        JList [JObj [(''index'', JInt 0), (''delta'', JObj []),
                                     (''finish_reason'', JStr ''stop'')]])]),
          Done], None)"
proof -
  have a: "list_all2 text_delta_frame hello_frames [''Hel'', ''lo'']"
    by (simp add: hello_frames_def text_delta_frame_def get_or_def get_def)
  have b: "message_delta_frame end_turn_frame (JStr ''end_turn'')"
    by (simp add: end_turn_frame_def message_delta_frame_def get_or_def get_def)
  from chat_stream_text_then_stop [OF a b, of "''claude-3-opus''"] a b
  show ?thesis by simp
qed

lemma count_done_append [simp]: "count_done (xs @ ys) = count_done xs + count_done ys"
  by (simp add: count_done_def)

lemma count_done_simps [simp]:
  "count_done [] = 0" "count_done (Done # xs) = Suc (count_done xs)"
  "count_done (Data j # xs) = count_done xs"
  by (simp_all add: count_done_def)

lemma chat_frame_done:
  assumes "chat_frame name frame = Inr out"
  shows "count_done out = (if stop_bearing frame then 1 else 0)
         \<and> (stop_bearing frame \<longrightarrow> out \<noteq> [] \<and> last out = Done)"
proof (cases frame)
  case (JObj chunk)
  define ty where "ty = get_or chunk ''type'' (JStr [])"
  show ?thesis
  proof (cases "get_or chunk ''delta'' (JObj [])")
    case (JObj delta)
    consider "ty = JStr ''content_block_delta''" | "ty = JStr ''message_delta''"
      | "ty \<noteq> JStr ''content_block_delta''" "ty \<noteq> JStr ''message_delta''" "\<not> truthy ty"
      | "ty \<noteq> JStr ''content_block_delta''" "ty \<noteq> JStr ''message_delta''" "truthy ty"
      by blast
    then show ?thesis
    proof cases
      case 1
      with assms \<open>frame = JObj chunk\<close> JObj show ?thesis
        by (auto simp: ty_def stop_bearing_def content_block_delta_def chat_chunk_def Let_def
            split: if_splits)
    next
      case 2
      with assms \<open>frame = JObj chunk\<close> JObj show ?thesis
        by (auto simp: ty_def stop_bearing_def message_delta_def chat_chunk_def Let_def
            split: if_splits)
    next
      case 3
      with assms \<open>frame = JObj chunk\<close> JObj show ?thesis
        by (auto simp: ty_def stop_bearing_def legacy_frame_def chat_chunk_def Let_def
            split: if_splits)
    next
      case 4
      with assms \<open>frame = JObj chunk\<close> show ?thesis
        by (auto simp: ty_def stop_bearing_def Let_def)
    qed
  qed (use assms \<open>frame = JObj chunk\<close> in
        \<open>auto simp: stop_bearing_def content_block_delta_def message_delta_def legacy_frame_def
           Let_def split: if_splits\<close>)
qed (use assms in simp_all)

lemma chat_stream_count:
  "chat_stream name frames = (events, None) \<Longrightarrow>
   count_done events = length (filter stop_bearing frames)"
proof (induction frames arbitrary: events)
  case Nil
  then show ?case by simp
next
  case (Cons f frames)
  from Cons.prems obtain o1 rest where o1: "chat_frame name f = Inr o1"
    and rest: "chat_stream name frames = (rest, None)" and ev: "events = o1 @ rest"
    by (auto split: sum.splits prod.splits)
  from chat_frame_done [OF o1] Cons.IH [OF rest] ev show ?case by simp
qed

text \<open>The generator of \<^verbatim>\<open>/v1/completions\<close> has no statement that yields the sentinel.\<close>

lemma completions_stream_never_done: "count_done (fst (completions_stream frames)) = 0"
proof (induction frames rule: completions_stream.induct)
  case 1
  show ?case by simp
next
  case (2 chunk rest)
  show ?case
  proof (cases "get_or chunk ''delta'' (JObj [])")
    case (JObj delta)
    show ?thesis
    proof (cases "truthy (get chunk ''stop_reason'')")
      case True
      with JObj show ?thesis by (simp add: text_event_def Let_def)
    next
      case False
      from "2.IH" [OF JObj refl refl refl False]
      have "count_done (fst (completions_stream rest)) = 0" .
      with JObj False show ?thesis
        by (cases "completions_stream rest") (simp add: text_event_def Let_def)
    qed
  qed simp_all
qed simp_all

text \<open>
  Claim C4 does not hold of the code. The generator of \<^verbatim>\<open>/v1/completions\<close> (lines
  527-547) never yields \<^verbatim>\<open>data: [DONE]\<close>: for two text deltas and the end of the
  message it emits the two text events and nothing more. The chat generator yields the
  sentinel after the chunk of each frame that carries a stop reason, here once.
\<close>

theorem completions_stream_no_done:
  "completions_stream (hello_frames @ [end_turn_frame]) =
     ([Data (JObj [(''choices'',
               JList [JObj [(''text'', JStr ''Hel''), (''index'', JInt 0),
                            (''finish_reason'', JNull)]])]),
       Data (JObj [(''choices'',
               JList [JObj [(''text'', JStr ''lo''), (''index'', JInt 0),
                            (''finish_reason'', JNull)]])])], None)
   \<and> count_done (fst (completions_stream (hello_frames @ [end_turn_frame]))) = 0
   \<and> response (completions False length (\<lambda>v. []) example_backend (\<lambda>k. 0) stream_request)
       = EventStream
           [Data (JObj [(''choices'',
               JList [JObj [(''text'', JStr ''Hel''), (''index'', JInt 0),
                            (''finish_reason'', JNull)]])]),
            Data (JObj [(''choices'',
               JList [JObj [(''text'', JStr ''lo''), (''index'', JInt 0),
                            (''finish_reason'', JNull)]])])] None
   \<and> count_done (fst (chat_stream ''claude-3-7-sonnet'' (hello_frames @ [end_turn_frame]))) = 1"
proof -
  have run: "completions_stream (hello_frames @ [end_turn_frame]) =
     ([Data (JObj [(''choices'',
               JList [JObj [(''text'', JStr ''Hel''), (''index'', JInt 0),
                            (''finish_reason'', JNull)]])]),
       Data (JObj [(''choices'',
               JList [JObj [(''text'', JStr ''lo''), (''index'', JInt 0),
                            (''finish_reason'', JNull)]])])], None)"
    by (simp add: hello_frames_def end_turn_frame_def get_or_def get_def text_event_def)
  have c0: "count_done (fst (completions_stream (hello_frames @ [end_turn_frame]))) = 0"
    by (simp add: run)
  have h: "response (completions False length (\<lambda>v. []) example_backend (\<lambda>k. 0) stream_request)
       = EventStream
           [Data (JObj [(''choices'',
               JList [JObj [(''text'', JStr ''Hel''), (''index'', JInt 0),
                            (''finish_reason'', JNull)]])]),
            Data (JObj [(''choices'',
               JList [JObj [(''text'', JStr ''lo''), (''index'', JInt 0),
                            (''finish_reason'', JNull)]])])] None"
    by code_simp
  have c1: "count_done (fst (chat_stream ''claude-3-7-sonnet'' (hello_frames @ [end_turn_frame]))) = 1"
    by (simp add: hello_frames_def end_turn_frame_def get_or_def get_def
        content_block_delta_def message_delta_def chat_chunk_def)
  show ?thesis using run c0 h c1 by - (intro conjI, assumption+)
qed

section \<open>Usage figures of a response\<close>

lemma has_key_truncate_field [simp]:
  "has_key (truncate_field k d) k' = has_key d k'"
proof (cases "map_of d k")
  case None
  then show ?thesis by (simp add: truncate_field_def)
next
  case (Some v)
  then show ?thesis
    by (cases v) (auto simp: truncate_field_def has_key_def)
qed

lemma truncate_choice_keys:
  "\<exists>c'. truncate_choice (JObj c) = JObj c' \<and> (\<forall>k. has_key c' k = has_key c k)"
proof -
  define c1 where "c1 = truncate_field ''text'' c"
  define c2 where "c2 = (case map_of c1 ''message'' of
                  Some (JObj message) \<Rightarrow>
                    set_key c1 ''message'' (JObj (truncate_field ''content'' message))
                | _ \<Rightarrow> c1)"
  have eq: "truncate_choice (JObj c) = JObj (truncate_field ''thinking'' c2)"
    unfolding c2_def c1_def by (simp add: Let_def)
  have k2: "has_key c2 k = has_key c1 k" for k
  proof (cases "map_of c1 ''message''")
    case None
    then show ?thesis by (simp add: c2_def)
  next
    case (Some v)
    then show ?thesis by (cases v) (auto simp: c2_def has_key_def)
  qed
  have "\<forall>k. has_key (truncate_field ''thinking'' c2) k = has_key c k"
    by (simp add: k2 c1_def)
  with eq show ?thesis by blast
qed

lemma log_response_info_other:
  "k \<noteq> ''choices'' \<Longrightarrow> map_of (log_response_info dbg r) k = map_of r k"
  by (simp add: log_response_info_def split: option.split json.split)

lemma first_choice_log:
  assumes a: "map_of r ''choices'' = Some (JList [JObj c])"
  shows "has_key (first_choice (log_response_info dbg r)) k = has_key c k"
proof -
  from truncate_choice_keys [of c] obtain c' where
    c': "truncate_choice (JObj c) = JObj c'" "\<forall>k. has_key c' k = has_key c k" by blast
  have "first_choice (log_response_info dbg r) = (if dbg then c' else c)"
    using a c'(1) by (simp add: first_choice_def log_response_info_def del: truncate_choice.simps)
  then show ?thesis using c'(2) by simp
qed

lemma usage_of_fields:
  "usage_of p c t w = JObj u \<Longrightarrow>
     map_of u ''prompt_tokens'' = Some (JInt (int p))
   \<and> map_of u ''completion_tokens'' = Some (JInt (int c))
   \<and> map_of u ''total_tokens'' = Some (JInt (int p + int c + int t))
   \<and> map_of u ''thinking_tokens'' = (if w then Some (JInt (int t)) else None)"
  by (cases w) (auto simp: usage_of_def Let_def set_key_def)


lemma translate_response_usage:
  assumes "translate_response dbg tok ps chat d pt body = Inr resp"
  shows "\<exists>p c t w u. map_of resp ''usage'' = Some (JObj u) \<and> usage_of p c t w = JObj u
           \<and> (\<not> w \<longrightarrow> t = 0) \<and> has_key (first_choice resp) ''thinking'' = w"
proof -
  from assms obtain bed where b: "body = JObj bed"
    by (cases body) (simp_all add: translate_response_def)
  from assms b obtain content where c: "extract_content ps bed = Inr content"
    by (cases "extract_content ps bed") (simp_all add: translate_response_def)
  define th where "th = (if contains ''claude-3-7'' (model_name d) \<and> use_thinking d
                     then extract_thinking bed else Inr (JStr []))"
  from assms b c obtain tc where t: "th = Inr tc"
    by (cases th) (simp_all add: translate_response_def th_def)
  from assms b c t obtain p where p: "count_tokens tok pt = Inr p"
    by (cases "count_tokens tok pt") (simp_all add: translate_response_def th_def)
  from assms b c t p obtain ct where ct: "count_tokens tok content = Inr ct"
    by (cases "count_tokens tok content") (simp_all add: translate_response_def th_def)
  define tt where "tt = (if truthy tc then count_tokens tok tc else Inr 0)"
  from assms b c t p ct obtain tn where tn: "tt = Inr tn"
    by (cases tt) (simp_all add: translate_response_def th_def tt_def)
  define choice0 where "choice0 =
      (if chat
       then [(''index'', JInt 0),
             (''message'', JObj [(''role'', JStr ''assistant''), (''content'', content)]),
             (''finish_reason'', get_or bed ''stop_reason'' (JStr ''stop''))]
       else [(''text'', content), (''index'', JInt 0),
             (''finish_reason'', get_or bed ''stop_reason'' (JStr ''stop''))])"
  define choice where "choice = (if truthy tc then set_key choice0 ''thinking'' tc else choice0)"
  define raw where "raw =
      [(''object'', JStr (if chat then ''chat.completion'' else ''text_completion'')),
       (''model'', JStr (model_name d)),
       (''choices'', JList [JObj choice]),
       (''usage'', usage_of p ct tn (truthy tc))]"
  have resp: "resp = log_response_info dbg raw"
    using assms b c t p ct tn
    unfolding translate_response_def raw_def choice_def choice0_def
    by (simp add: th_def tt_def Let_def)
  obtain u where u: "usage_of p ct tn (truthy tc) = JObj u"
    by (simp add: usage_of_def Let_def)
  have us: "map_of resp ''usage'' = Some (JObj u)"
    by (simp add: resp log_response_info_other raw_def u)
  have zero: "\<not> truthy tc \<longrightarrow> tn = 0"
    using tn by (auto simp: tt_def)
  have k0: "\<not> has_key choice0 ''thinking''"
    by (simp add: choice0_def has_key_def)
  have kc: "has_key choice ''thinking'' = truthy tc"
    using k0 by (simp add: choice_def has_key_def)
  have "map_of raw ''choices'' = Some (JList [JObj choice])" by (simp add: raw_def)
  from first_choice_log [OF this, of dbg "''thinking''"] kc
  have fc: "has_key (first_choice resp) ''thinking'' = truthy tc" by (simp add: resp)
  from us u zero fc show ?thesis by blast
qed


text \<open>
  Claim C10. In every non-streaming response (status 200) of the two POST handlers,
  \<^verbatim>\<open>usage.total_tokens\<close> is \<^verbatim>\<open>usage.prompt_tokens + usage.completion_tokens\<close> plus
  the thinking token count: the field \<^verbatim>\<open>usage.thinking_tokens\<close>, which is present
  exactly when the first choice carries a thinking text, and 0 when it is absent.
\<close>

theorem usage_total_tokens:
  assumes "response (completions dbg tok ps be jitter req) = Json200 resp
         \<or> response (chat_completions dbg tok ps be jitter req) = Json200 resp"
  shows "\<exists>p c. usage_field resp ''prompt_tokens'' = Some p
           \<and> usage_field resp ''completion_tokens'' = Some c
           \<and> usage_field resp ''total_tokens'' =
               Some (p + c + (case usage_field resp ''thinking_tokens'' of
                                Some t \<Rightarrow> t | None \<Rightarrow> 0))
           \<and> (usage_field resp ''thinking_tokens'' \<noteq> None
                 \<longleftrightarrow> has_key (first_choice resp) ''thinking'')"
proof -
  have "\<exists>chat d pt body. translate_response dbg tok ps chat d pt body = Inr resp"
    using assms
  proof
    assume a: "response (completions dbg tok ps be jitter req) = Json200 resp"
    then obtain d where d: "completions_params dbg req = Inr d"
      by (cases "completions_params dbg req")
         (auto simp: completions_def early_response_def split: early.splits)
    from a d have "response (call_backend dbg tok ps be jitter False
            (get (log_request_info dbg req) ''prompt'') d) = Json200 resp"
      by (simp add: completions_def)
    then show ?thesis
      by (auto simp: call_backend_def Let_def split: if_splits returned.splits sum.splits
          prod.splits)
  next
    assume a: "response (chat_completions dbg tok ps be jitter req) = Json200 resp"
    then obtain d where d: "chat_completions_params dbg req = Inr d"
      by (cases "chat_completions_params dbg req")
         (auto simp: chat_completions_def early_response_def split: early.splits)
    from a d have "response (call_backend dbg tok ps be jitter True
            (prompt_text_of (log_request_info dbg req)) d) = Json200 resp"
      by (simp add: chat_completions_def)
    then show ?thesis
      by (auto simp: call_backend_def Let_def split: if_splits returned.splits sum.splits
          prod.splits)
  qed
  then obtain chat d pt body where "translate_response dbg tok ps chat d pt body = Inr resp"
    by blast
  from translate_response_usage [OF this] obtain p c t w u where
    u: "map_of resp ''usage'' = Some (JObj u)" "usage_of p c t w = JObj u"
       "\<not> w \<longrightarrow> t = 0" "has_key (first_choice resp) ''thinking'' = w"
    by blast
  from usage_of_fields [OF u(2)] have f:
    "map_of u ''prompt_tokens'' = Some (JInt (int p))"
    "map_of u ''completion_tokens'' = Some (JInt (int c))"
    "map_of u ''total_tokens'' = Some (JInt (int p + int c + int t))"
    "map_of u ''thinking_tokens'' = (if w then Some (JInt (int t)) else None)"
    by simp_all
  show ?thesis
    apply (rule exI [of _ "int p"], rule exI [of _ "int c"])
    using u(1,3,4) f by (cases w) (simp_all add: usage_field_def)
qed

lemma example_exchange:
  "response (completions False length (\<lambda>v. []) example_backend (\<lambda>k. 0) example_request)
     = Json200 example_response"
  by code_simp

theorem usage_total_tokens_witness:
  "(response (completions False length (\<lambda>v. []) example_backend (\<lambda>k. 0) example_request)
      = Json200 example_response
    \<or> response (chat_completions False length (\<lambda>v. []) example_backend (\<lambda>k. 0)
         example_request) = Json200 example_response)
   \<and> usage_field example_response ''prompt_tokens'' = Some 9
   \<and> usage_field example_response ''completion_tokens'' = Some 6
   \<and> usage_field example_response ''thinking_tokens'' = Some 11
   \<and> usage_field example_response ''total_tokens'' = Some (9 + 6 + 11)"
proof -
  have run: "response (completions False length (\<lambda>v. []) example_backend (\<lambda>k. 0)
        example_request) = Json200 example_response
    \<or> response (chat_completions False length (\<lambda>v. []) example_backend (\<lambda>k. 0)
         example_request) = Json200 example_response"
    by (rule disjI1) (rule example_exchange)
  from usage_total_tokens [OF run] obtain p c where
    "usage_field example_response ''prompt_tokens'' = Some p"
    "usage_field example_response ''completion_tokens'' = Some c"
    "usage_field example_response ''total_tokens'' =
       Some (p + c + (case usage_field example_response ''thinking_tokens'' of
                        Some t \<Rightarrow> t | None \<Rightarrow> 0))"
    by (elim exE conjE)
  moreover have "usage_field example_response ''prompt_tokens'' = Some 9"
    "usage_field example_response ''completion_tokens'' = Some 6"
    "usage_field example_response ''thinking_tokens'' = Some 11"
    by (simp_all add: usage_field_def example_response_def)
  ultimately show ?thesis using run by simp
qed

end
